theory Spec2Isabelle
  imports Complex_Main "HOL-Library.Sublist" "HOL-Library.Multiset"
begin

section \<open>Data model of the Device Manager\<close>

text \<open>
  The development embeds \<^verbatim>\<open>DeviceManager_impl\<close> (the C++ class of the node-local
  supervisor). One call of a member function is a function from the manager's state to an
  outcome and the new state. Exceptions are values; calls that leave the process (to the
  naming directory, to the Domain Manager, to a child, to the kernel) are appended to a
  log held in the state, so that "no outbound call" is a property of the log.
\<close>

text \<open>
  The administrative state \<^verbatim>\<open>_adminState\<close>. The source assigns the last three values;
  the enumeration is declared in the class header, and \<open>DEVMGR_UNREGISTERED\<close> stands for
  the state before the manager has registered with its domain.
\<close>

datatype AdminState =
  DEVMGR_UNREGISTERED | DEVMGR_REGISTERED | DEVMGR_SHUTTING_DOWN | DEVMGR_SHUTDOWN

text \<open>
  The exceptions that the calls of this class raise or receive. \<open>runtime_error\<close> is
  \<^verbatim>\<open>std::runtime_error\<close>; \<open>SystemException\<close> is any \<^verbatim>\<open>CORBA::SystemException\<close>
  (TRANSIENT, COMM_FAILURE, ...); \<open>StdException\<close> is any other \<^verbatim>\<open>std::exception\<close>.
\<close>

datatype exn =
  InvalidObjectReference
  | InvalidConfiguration
  | PartialConfiguration
  | InitializeError
  | RegisterError
  | SystemException
  | StdException
  | runtime_error string

text \<open>
  How a call ends: it returns, it raises to its caller, it has undefined behaviour (the
  source dereferences a null pointer or reads a vector out of range), or it ends the
  process (an exception that the exception specification of the operation does not admit
  leaves the function: \<^verbatim>\<open>std::unexpected()\<close> is called, whose default handler
  terminates; the sources install no other handler).
\<close>

datatype outcome = Returned | Raised exn | Undefined | Terminated

text \<open>
  A remote \<^verbatim>\<open>CF::Device\<close> as the manager sees it: its stringified reference and what
  each remote operation answers (\<open>Inl\<close>: the call raises). A \<^verbatim>\<open>CF::Device_ptr\<close> is
  \<open>Device option\<close>, \<open>None\<close> the nil reference. A service is a plain
  \<^verbatim>\<open>CORBA::Object_ptr\<close>, known by its stringified reference only.
\<close>

record Device =
  dev_ior :: string
  dev_identifier :: "exn + string"
  dev_label :: "exn + string"
  dev_softwareProfile :: "exn + string"
  dev_initializeProperties :: "exn option"
  dev_initialize :: "exn option"
  dev_configure :: "exn option"

type_synonym Object_ptr = "string option"

text \<open>
  \<^verbatim>\<open>struct DeviceNode\<close> and \<^verbatim>\<open>struct ServiceNode\<close>. Both have the members
  \<^verbatim>\<open>identifier\<close>, \<^verbatim>\<open>label\<close>, \<^verbatim>\<open>IOR\<close> and \<^verbatim>\<open>pid\<close>; the fields carry a
  prefix here (\<open>dn_\<close>, \<open>sn_\<close>) to tell the two records apart.
\<close>

record DeviceNode =
  dn_identifier :: string
  dn_label :: string
  dn_IOR :: string
  device :: "Device option"
  dn_pid :: int

record ServiceNode =
  sn_identifier :: string
  sn_label :: string
  sn_IOR :: string
  service :: Object_ptr
  sn_pid :: int

datatype signal = SIGINT | SIGTERM | SIGKILL

text \<open>The calls that leave the manager, in the order they are made.\<close>

datatype call =
  NS_bind string string
  | NS_rebind string string
  | NS_unbind string
  | Dom_registerDevice string
  | Dom_registerService string string
  | Dom_unregisterDevice string
  | Dom_unregisterService string string
  | Dom_unregisterDeviceManager
  | Dev_initializeProperties string "string list"
  | Dev_initialize string
  | Dev_configure string "string list"
  | Dev_releaseObject string nat
  | Kill int signal
  | Wait int

text \<open>
  Modelled from the spec: the code type of an implementation is Executable or
  SharedLibrary (the IDL that declares \<^verbatim>\<open>CF::LoadableDevice::LoadType\<close> is not among the
  sources).
\<close>

datatype LoadType = EXECUTABLE | SHARED_LIBRARY

text \<open>
  Modelled from the spec: an implementation variant with its processor, its operating
  system, its code type, its property file and entry point (empty when absent) and its
  softpkg dependencies; a softpkg dependency has implementations of its own. The classes
  \<^verbatim>\<open>local_spd::ImplementationInfo\<close> and \<^verbatim>\<open>local_spd::SoftpkgInfo\<close> are declared in
  \<^verbatim>\<open>spdSupport.h\<close>, which is not among the sources.
\<close>

datatype ImplementationInfo =
  ImplementationInfo (impl_id: string) (processor: string) (osName: string)
    (codeType: LoadType) (propertyFile: string) (entryPoint: string)
    (softPkgDependencies: "SoftpkgInfo list")
and SoftpkgInfo =
  SoftpkgInfo (pkg_name: string) (pkg_implementations: "ImplementationInfo list")

text \<open>A property set, as far as matching reads it: identifiers with their values.\<close>

type_synonym Properties = "(string \<times> string) list"

text \<open>
  What the manager reads of a \<^verbatim>\<open>local_spd::ProgramProfile\<close>: during registration the
  instantiation identifier and the properties to send, during startup the
  implementations, the selected one, the component type of the SCD and the property set
  (the member \<^verbatim>\<open>prf\<close>).
\<close>

record ProgramProfile =
  instantiationIdentifier :: string
  isConfigurable :: bool
  nonNilConstructProperties :: "string list"
  nonNilConfigureProperties :: "string list"
  implementations :: "ImplementationInfo list"
  selectedImplementation :: "ImplementationInfo option"
  componentType :: string
  prf_properties :: Properties

text \<open>
  The members of \<^verbatim>\<open>DeviceManager_impl\<close> that the registration, unregistration and
  shutdown paths use. \<open>mgr_label\<close> is the member \<^verbatim>\<open>_label\<close>, \<open>dmnMgr\<close> the
  reference \<^verbatim>\<open>_dmnMgr\<close>. \<open>internalShutdown\<close> is the flag behind the pointer
  \<^verbatim>\<open>_internalShutdown\<close>. The two naming contexts are held as the bindings the manager
  has made in them (name to stringified reference). \<open>DEVICE_FORCE_QUIT_TIME\<close> is in
  seconds. \<open>calls\<close> is the log of outbound calls.
\<close>

record DeviceManager_impl =
  mgr_label :: string
  dmnMgr :: Object_ptr
  adminState :: AdminState
  internalShutdown :: bool
  pendingDevices :: "DeviceNode list"
  registeredDevices :: "DeviceNode list"
  pendingServices :: "ServiceNode list"
  registeredServices :: "ServiceNode list"
  deployed_comps :: "ProgramProfile list"
  devMgrContext :: "string \<rightharpoonup> string"
  rootContext :: "string \<rightharpoonup> string"
  DEVICE_FORCE_QUIT_TIME :: rat
  calls :: "call list"

text \<open>
  The environment of one call: whether the naming directory can be reached, and what the
  Domain Manager answers to a forwarded registration (\<open>Some e\<close>: it raises \<open>e\<close>).
  The next two fields say what the children do while the manager waits for them during
  shutdown: the devices that call \<^verbatim>\<open>unregisterDevice\<close>, in that order, while the
  \<^verbatim>\<open>releaseObject\<close> of the device with that stringified reference is in flight (the
  device itself, the children that an aggregate device releases, or any other), and
  whether the process with that pid exits (and is reaped) within the wait that follows
  that signal. The last field is the \<^verbatim>\<open>int\<close> that the program obtains when it converts a
  floating-point value whose truncation does not fit an \<^verbatim>\<open>int\<close>; the language leaves
  that conversion undefined.
\<close>

record Env =
  ns_unreachable :: bool
  dom_registerDevice :: "string \<Rightarrow> exn option"
  dom_registerService :: "string \<Rightarrow> string \<Rightarrow> exn option"
  during_release :: "string \<Rightarrow> Device list"
  exits_on :: "signal \<Rightarrow> int \<Rightarrow> bool"
  out_of_range_int :: int

definition log_call :: "call \<Rightarrow> DeviceManager_impl \<Rightarrow> DeviceManager_impl" where
  "log_call c s = s\<lparr>calls := calls s @ [c]\<rparr>"

text \<open>
  \<^verbatim>\<open>registerDevice\<close>, \<^verbatim>\<open>registerService\<close>, \<^verbatim>\<open>unregisterDevice\<close> and
  \<^verbatim>\<open>unregisterService\<close> are declared
  \<^verbatim>\<open>throw (CORBA::SystemException, CF::InvalidObjectReference)\<close>. An exception that
  leaves the body of one of them reaches the caller when it is of one of these two types;
  any other ends the process.
\<close>

definition exception_specification :: "exn \<Rightarrow> DeviceManager_impl \<Rightarrow> outcome \<times> DeviceManager_impl" where
  "exception_specification e s =
     (if e = SystemException \<or> e = InvalidObjectReference then (Raised e, s)
      else (Terminated, s))"

section \<open>The child registry\<close>

text \<open>
  The source walks a vector with an iterator and, at the first element that matches,
  erases it and breaks. \<open>erase_first\<close> is that loop: the element found and the vector
  without it, or \<open>None\<close> when the loop ends without a match.
\<close>

fun erase_first :: "('a \<Rightarrow> bool) \<Rightarrow> 'a list \<Rightarrow> ('a \<times> 'a list) option" where
  "erase_first P [] = None"
| "erase_first P (x # xs) =
     (if P x then Some (x, xs)
      else (case erase_first P xs of
              None \<Rightarrow> None
            | Some (y, ys) \<Rightarrow> Some (y, x # ys)))"

text \<open>\<^verbatim>\<open>deviceIsRegistered\<close>: \<^verbatim>\<open>_is_equivalent\<close> is read as equality of the
  stringified references.\<close>

definition is_equivalent :: "Device option \<Rightarrow> Device \<Rightarrow> bool" where
  "is_equivalent p d = (case p of None \<Rightarrow> False | Some d' \<Rightarrow> dev_ior d' = dev_ior d)"

definition deviceIsRegistered :: "DeviceManager_impl \<Rightarrow> Device \<Rightarrow> bool" where
  "deviceIsRegistered s registeredDevice =
     list_ex (\<lambda>n. is_equivalent (device n) registeredDevice) (registeredDevices s)"

definition serviceIsRegistered :: "DeviceManager_impl \<Rightarrow> string \<Rightarrow> bool" where
  "serviceIsRegistered s serviceName =
     list_ex (\<lambda>n. sn_label n = serviceName) (registeredServices s)"

text \<open>
  A naming-directory call: logged, and it raises when the directory cannot be reached.
  \<^verbatim>\<open>unbind\<close> of a name that is not bound raises too (NotFound); both callers swallow it.
\<close>

definition unbind_devMgrContext :: "Env \<Rightarrow> string \<Rightarrow> DeviceManager_impl \<Rightarrow> DeviceManager_impl" where
  "unbind_devMgrContext env name s =
     (let s1 = log_call (NS_unbind name) s in
      if ns_unreachable env then s1
      else s1\<lparr>devMgrContext := (devMgrContext s1)(name := None)\<rparr>)"

definition unbind_rootContext :: "Env \<Rightarrow> string \<Rightarrow> DeviceManager_impl \<Rightarrow> DeviceManager_impl" where
  "unbind_rootContext env name s =
     (let s1 = log_call (NS_unbind name) s in
      if ns_unreachable env then s1
      else s1\<lparr>rootContext := (rootContext s1)(name := None)\<rparr>)"

text \<open>\<^verbatim>\<open>local_unregisterDevice\<close> and \<^verbatim>\<open>local_unregisterService\<close>: unbind, then
  tell the Domain Manager only while registered with it; every failure is swallowed.\<close>

definition local_unregisterDevice :: "Env \<Rightarrow> string \<Rightarrow> string \<Rightarrow> DeviceManager_impl \<Rightarrow> DeviceManager_impl" where
  "local_unregisterDevice env ior lbl s =
     (let s1 = unbind_devMgrContext env lbl s in
      if adminState s1 = DEVMGR_REGISTERED then log_call (Dom_unregisterDevice ior) s1
      else s1)"

definition local_unregisterService :: "Env \<Rightarrow> string \<Rightarrow> string \<Rightarrow> DeviceManager_impl \<Rightarrow> DeviceManager_impl" where
  "local_unregisterService env ior name s =
     (let s1 = unbind_rootContext env name s in
      if adminState s1 = DEVMGR_REGISTERED then log_call (Dom_unregisterService ior name) s1
      else s1)"

text \<open>\<^verbatim>\<open>decrement_registeredDevices\<close>: the record is found by the stringified
  reference of the argument.\<close>

definition decrement_registeredDevices :: "Env \<Rightarrow> Device \<Rightarrow> DeviceManager_impl \<Rightarrow> bool \<times> DeviceManager_impl" where
  "decrement_registeredDevices env registeredDevice s =
     (case erase_first (\<lambda>n. dn_IOR n = dev_ior registeredDevice) (registeredDevices s) of
        None \<Rightarrow> (False, s)
      | Some (deviceNode, rest) \<Rightarrow>
          (let s1 = s\<lparr>registeredDevices := rest\<rparr>;
               s2 = (if dn_pid deviceNode \<noteq> 0
                     then s1\<lparr>pendingDevices := pendingDevices s1 @ [deviceNode]\<rparr>
                     else s1)
           in (True, local_unregisterDevice env (dev_ior registeredDevice) (dn_label deviceNode) s2)))"

text \<open>\<^verbatim>\<open>decrement_registeredServices\<close>: the record is found by its label, compared
  with the name of the call; the unbinding comes before the erase.\<close>

definition decrement_registeredServices :: "Env \<Rightarrow> string \<Rightarrow> string \<Rightarrow> DeviceManager_impl \<Rightarrow> bool \<times> DeviceManager_impl" where
  "decrement_registeredServices env registeredService name s =
     (case erase_first (\<lambda>n. sn_label n = name) (registeredServices s) of
        None \<Rightarrow> (False, s)
      | Some (serviceNode, rest) \<Rightarrow>
          (let s1 = local_unregisterService env registeredService name s;
               s2 = s1\<lparr>registeredServices := rest\<rparr>
           in (True,
               if sn_pid serviceNode \<noteq> 0
               then s2\<lparr>pendingServices := pendingServices s2 @ [serviceNode]\<rparr>
               else s2)))"

text \<open>
  \<^verbatim>\<open>increment_registeredDevices\<close>: the function reads \<^verbatim>\<open>identifier()\<close> of the
  registering device and looks the pending record up by it; without one a new record with
  pid 0 is made. It then reads \<^verbatim>\<open>label()\<close> and fills in the record. Neither read is in
  a try block: when the first raises nothing has changed, when the second raises the
  record has left the pending devices already.
\<close>

definition increment_registeredDevices :: "Device \<Rightarrow> DeviceManager_impl \<Rightarrow> outcome \<times> DeviceManager_impl" where
  "increment_registeredDevices registeringDevice s =
     (case dev_identifier registeringDevice of
        Inl e \<Rightarrow> (Raised e, s)
      | Inr ident \<Rightarrow>
          (let (deviceNode, s1) =
                 (case erase_first (\<lambda>n. dn_identifier n = ident) (pendingDevices s) of
                    Some (n, rest) \<Rightarrow> (n, s\<lparr>pendingDevices := rest\<rparr>)
                  | None \<Rightarrow>
                      (\<lparr>dn_identifier = ident, dn_label = [], dn_IOR = [], device = None,
                        dn_pid = 0\<rparr>, s))
           in case dev_label registeringDevice of
                Inl e \<Rightarrow> (Raised e, s1)
              | Inr lbl \<Rightarrow>
                  (let deviceNode' = deviceNode\<lparr>dn_label := lbl,
                                       dn_IOR := dev_ior registeringDevice,
                                       device := Some registeringDevice\<rparr>
                   in (Returned, s1\<lparr>registeredDevices := registeredDevices s1 @ [deviceNode']\<rparr>))))"

text \<open>\<^verbatim>\<open>increment_registeredServices\<close>: the pending record is looked up by its
  label, compared with the name of the call.\<close>

definition increment_registeredServices :: "string \<Rightarrow> string \<Rightarrow> DeviceManager_impl \<Rightarrow> DeviceManager_impl" where
  "increment_registeredServices registeringService name s =
     (let (serviceNode, s1) =
            (case erase_first (\<lambda>n. sn_label n = name) (pendingServices s) of
               Some (n, rest) \<Rightarrow> (n, s\<lparr>pendingServices := rest\<rparr>)
             | None \<Rightarrow>
                 (\<lparr>sn_identifier = name, sn_label = [], sn_IOR = [], service = None,
                   sn_pid = 0\<rparr>, s));
          serviceNode' = serviceNode\<lparr>sn_label := name, sn_IOR := registeringService,
                                     service := Some registeringService\<rparr>
      in s1\<lparr>registeredServices := registeredServices s1 @ [serviceNode']\<rparr>)"

section \<open>The inbound operations\<close>

text \<open>
  The catch clauses of the source name \<^verbatim>\<open>std::exception\<close> and
  \<^verbatim>\<open>CORBA::Exception\<close>; every exception of \<open>exn\<close> is one or the other.
\<close>

fun is_std_exception :: "exn \<Rightarrow> bool" where
  "is_std_exception StdException = True"
| "is_std_exception (runtime_error m) = True"
| "is_std_exception e = False"

definition is_CORBA_exception :: "exn \<Rightarrow> bool" where
  "is_CORBA_exception e = (\<not> is_std_exception e)"

text \<open>\<^verbatim>\<open>findProfile\<close>: the first deployed profile with that instantiation identifier,
  or the null pointer.\<close>

definition findProfile :: "DeviceManager_impl \<Rightarrow> string \<Rightarrow> ProgramProfile option" where
  "findProfile s componentInstantiationId =
     find (\<lambda>p. instantiationIdentifier p = componentInstantiationId) (deployed_comps s)"

text \<open>
  \<^verbatim>\<open>registerDevice\<close>, from its last step to its first. The last step forwards the
  registration to the Domain Manager while the manager is registered with it; the three
  catch clauses there (RegisterError, \<^verbatim>\<open>std::exception\<close>, \<^verbatim>\<open>CORBA::Exception\<close>)
  only log.
\<close>

definition registerDevice_forward :: "Env \<Rightarrow> Device \<Rightarrow> DeviceManager_impl \<Rightarrow> outcome \<times> DeviceManager_impl" where
  "registerDevice_forward env dev s =
     (if adminState s = DEVMGR_REGISTERED then
        (let s1 = log_call (Dom_registerDevice (dev_ior dev)) s in
         case dom_registerDevice env (dev_ior dev) of
           None \<Rightarrow> (Returned, s1)
         | Some e \<Rightarrow>
             if e = RegisterError then (Returned, s1)
             else if is_std_exception e then (Returned, s1)
             else if is_CORBA_exception e then (Returned, s1)
             else exception_specification e s1)
      else (Returned, s))"

text \<open>The binding step: a \<^verbatim>\<open>bind\<close> that raises (the name is bound already, or the
  directory cannot be reached) ends the call silently. An exception of
  \<^verbatim>\<open>increment_registeredDevices\<close> leaves the operation.\<close>

definition registerDevice_bind :: "Env \<Rightarrow> Device \<Rightarrow> string \<Rightarrow> DeviceManager_impl \<Rightarrow> outcome \<times> DeviceManager_impl" where
  "registerDevice_bind env dev deviceLabel s =
     (if \<not> deviceIsRegistered s dev then
        (let s1 = log_call (NS_bind deviceLabel (dev_ior dev)) s in
         if ns_unreachable env \<or> devMgrContext s1 deviceLabel \<noteq> None then (Returned, s1)
         else
           (case increment_registeredDevices dev
                   (s1\<lparr>devMgrContext := (devMgrContext s1)(deviceLabel \<mapsto> dev_ior dev)\<rparr>) of
              (Raised e, s2) \<Rightarrow> exception_specification e s2
            | (r, s2) \<Rightarrow> registerDevice_forward env dev s2))
      else (Returned, s))"

text \<open>\<^verbatim>\<open>configure\<close> is called only with a non-empty property list; each of its four
  catch clauses raises InvalidObjectReference.\<close>

definition registerDevice_configure :: "Env \<Rightarrow> Device \<Rightarrow> string \<Rightarrow> ProgramProfile \<Rightarrow> DeviceManager_impl \<Rightarrow> outcome \<times> DeviceManager_impl" where
  "registerDevice_configure env dev deviceLabel spdinfo s =
     (let cprops = nonNilConfigureProperties spdinfo in
      if cprops \<noteq> [] then
        (let s1 = log_call (Dev_configure (dev_ior dev) cprops) s in
         case dev_configure dev of
           Some e \<Rightarrow> (Raised InvalidObjectReference, s1)
         | None \<Rightarrow> registerDevice_bind env dev deviceLabel s1)
      else registerDevice_bind env dev deviceLabel s)"

definition registerDevice_initialize :: "Env \<Rightarrow> Device \<Rightarrow> string \<Rightarrow> ProgramProfile \<Rightarrow> DeviceManager_impl \<Rightarrow> outcome \<times> DeviceManager_impl" where
  "registerDevice_initialize env dev deviceLabel spdinfo s =
     (let s1 = log_call (Dev_initialize (dev_ior dev)) s in
      case dev_initialize dev of
        Some e \<Rightarrow> (Raised InvalidObjectReference, s1)
      | None \<Rightarrow> registerDevice_configure env dev deviceLabel spdinfo s1)"

definition registerDevice_initializeProperties :: "Env \<Rightarrow> Device \<Rightarrow> string \<Rightarrow> ProgramProfile \<Rightarrow> DeviceManager_impl \<Rightarrow> outcome \<times> DeviceManager_impl" where
  "registerDevice_initializeProperties env dev deviceLabel spdinfo s =
     (if isConfigurable spdinfo then
        (let s1 = log_call (Dev_initializeProperties (dev_ior dev)
                              (nonNilConstructProperties spdinfo)) s in
         case dev_initializeProperties dev of
           Some e \<Rightarrow> (Raised InvalidObjectReference, s1)
         | None \<Rightarrow> registerDevice_initialize env dev deviceLabel spdinfo s1)
      else registerDevice_initialize env dev deviceLabel spdinfo s)"

text \<open>
  The head of \<^verbatim>\<open>registerDevice\<close>: the nil check, then the shutdown flag, then the
  reads of \<^verbatim>\<open>label()\<close> and \<^verbatim>\<open>identifier()\<close> (outside any try block, so that
  what they raise leaves the operation), the already-registered check and the profile
  lookup. \<^verbatim>\<open>findProfile\<close> returns a null pointer for an identifier that was not
  deployed here, and the source dereferences it after reading \<^verbatim>\<open>softwareProfile()\<close>.
  Attribute reads of the child are not logged; a device answers each of them the same
  way every time.
\<close>

definition registerDevice :: "Env \<Rightarrow> Device option \<Rightarrow> DeviceManager_impl \<Rightarrow> outcome \<times> DeviceManager_impl" where
  "registerDevice env registeringDevice s =
     (case registeringDevice of
        None \<Rightarrow> (Raised InvalidObjectReference, s)
      | Some dev \<Rightarrow>
          if internalShutdown s then (Returned, s)
          else (case dev_label dev of
                  Inl e \<Rightarrow> exception_specification e s
                | Inr deviceLabel \<Rightarrow>
                    (case dev_identifier dev of
                       Inl e \<Rightarrow> exception_specification e s
                     | Inr device_id \<Rightarrow>
                         if deviceIsRegistered s dev then (Returned, s)
                         else (case dev_softwareProfile dev of
                                 Inl e \<Rightarrow> exception_specification e s
                               | Inr spdFile \<Rightarrow>
                                   (case findProfile s device_id of
                                      None \<Rightarrow> (Undefined, s)
                                    | Some spdinfo \<Rightarrow>
                                        registerDevice_initializeProperties env dev
                                          deviceLabel spdinfo s)))))"

text \<open>
  \<^verbatim>\<open>registerService\<close>. It has no shutdown check. When the Domain Manager refuses the
  forwarded registration, the catch-all clause unbinds the name, pops the last registered
  service and rethrows; the rethrown exception leaves the operation through its exception
  specification.
\<close>

definition registerService :: "Env \<Rightarrow> Object_ptr \<Rightarrow> string \<Rightarrow> DeviceManager_impl \<Rightarrow> outcome \<times> DeviceManager_impl" where
  "registerService env registeringService name s =
     (case registeringService of
        None \<Rightarrow> (Raised InvalidObjectReference, s)
      | Some svc \<Rightarrow>
          if \<not> serviceIsRegistered s name then
            (let s1 = log_call (NS_rebind name svc) s in
             if ns_unreachable env then (Returned, s1)
             else
               (let s2 = increment_registeredServices svc name
                           (s1\<lparr>rootContext := (rootContext s1)(name \<mapsto> svc)\<rparr>)
                in if adminState s2 = DEVMGR_REGISTERED then
                     (let s3 = log_call (Dom_registerService svc name) s2 in
                      case dom_registerService env svc name of
                        None \<Rightarrow> (Returned, s3)
                      | Some e \<Rightarrow>
                          (let s4 = unbind_rootContext env name s3 in
                           exception_specification e
                             (s4\<lparr>registeredServices := butlast (registeredServices s4)\<rparr>)))
                   else (Returned, s2)))
          else (Returned, s))"

text \<open>\<^verbatim>\<open>unregisterDevice\<close>: a failure to read the identifier or the label of the
  device is turned into InvalidObjectReference. Every exception that leaves this operation
  or \<^verbatim>\<open>unregisterService\<close> is an InvalidObjectReference, which their exception
  specification admits.\<close>

definition unregisterDevice :: "Env \<Rightarrow> Device option \<Rightarrow> DeviceManager_impl \<Rightarrow> outcome \<times> DeviceManager_impl" where
  "unregisterDevice env registeredDevice s =
     (case registeredDevice of
        None \<Rightarrow> (Raised InvalidObjectReference, s)
      | Some dev \<Rightarrow>
          (case dev_identifier dev of
             Inl e \<Rightarrow> (Raised InvalidObjectReference, s)
           | Inr dev_id \<Rightarrow>
               (case dev_label dev of
                  Inl e \<Rightarrow> (Raised InvalidObjectReference, s)
                | Inr dev_name \<Rightarrow>
                    (let (deviceFound, s1) = decrement_registeredDevices env dev s in
                     if \<not> deviceFound then (Raised InvalidObjectReference, s1)
                     else (Returned, s1)))))"

definition unregisterService :: "Env \<Rightarrow> Object_ptr \<Rightarrow> string \<Rightarrow> DeviceManager_impl \<Rightarrow> outcome \<times> DeviceManager_impl" where
  "unregisterService env registeredService name s =
     (case registeredService of
        None \<Rightarrow> (Raised InvalidObjectReference, s)
      | Some svc \<Rightarrow>
          (let (serviceFound, s1) = decrement_registeredServices env svc name s in
           if serviceFound then (Returned, s1)
           else (Raised InvalidObjectReference, s1)))"

text \<open>What the loop finds, as facts about lists; the termination proofs below use them.\<close>

lemma erase_first_None_iff: "erase_first P xs = None \<longleftrightarrow> (\<forall>x\<in>set xs. \<not> P x)"
  by (induction xs) (auto split: option.splits)

lemma erase_first_SomeD:
  "erase_first P xs = Some (y, ys) \<Longrightarrow>
     \<exists>pre post. xs = pre @ y # post \<and> P y \<and> (\<forall>x\<in>set pre. \<not> P x) \<and> ys = pre @ post"
proof (induction xs arbitrary: y ys)
  case Nil
  then show ?case by simp
next
  case (Cons x xs)
  show ?case
  proof (cases "P x")
    case True
    with Cons.prems have "y = x" "ys = xs" by simp_all
    with True have "x # xs = [] @ y # xs \<and> P y \<and> (\<forall>x\<in>set []. \<not> P x) \<and> ys = [] @ xs" by simp
    then show ?thesis by blast
  next
    case False
    with Cons.prems obtain ys' where e: "erase_first P xs = Some (y, ys')" and ys: "ys = x # ys'"
      by (auto split: option.splits)
    from Cons.IH[OF e] obtain pre post where
      "xs = pre @ y # post" "P y" "\<forall>x\<in>set pre. \<not> P x" "ys' = pre @ post" by blast
    with False ys have "x # xs = (x # pre) @ y # post \<and> P y \<and> (\<forall>z\<in>set (x # pre). \<not> P z) \<and> ys = (x # pre) @ post"
      by simp
    then show ?thesis by blast
  qed
qed


lemma erase_first_length:
  "erase_first P xs = Some (y, ys) \<Longrightarrow> length xs = Suc (length ys)"
  by (induction xs arbitrary: ys) (auto split: if_splits option.splits)

section \<open>Reaping and shutdown\<close>

text \<open>\<^verbatim>\<open>getDeviceNode\<close>: the record of the process that exited is taken out of the
  pending devices or, failing that, out of the registered devices, which unregisters it.\<close>

definition getDeviceNode :: "Env \<Rightarrow> int \<Rightarrow> DeviceManager_impl \<Rightarrow> DeviceNode option \<times> DeviceManager_impl" where
  "getDeviceNode env p s =
     (case erase_first (\<lambda>n. dn_pid n = p) (pendingDevices s) of
        Some (deviceNode, rest) \<Rightarrow> (Some deviceNode, s\<lparr>pendingDevices := rest\<rparr>)
      | None \<Rightarrow>
          (case erase_first (\<lambda>n. dn_pid n = p) (registeredDevices s) of
             Some (deviceNode, rest) \<Rightarrow>
               (Some deviceNode,
                local_unregisterDevice env (dn_IOR deviceNode) (dn_label deviceNode)
                  (s\<lparr>registeredDevices := rest\<rparr>))
           | None \<Rightarrow> (None, s)))"

text \<open>\<^verbatim>\<open>childExited\<close>: the device record and the service record of that pid are
  removed from their buckets and deleted; what is logged locally is left out.\<close>

definition childExited :: "Env \<Rightarrow> int \<Rightarrow> DeviceManager_impl \<Rightarrow> DeviceManager_impl" where
  "childExited env p s =
     (let (deviceNode, s1) = getDeviceNode env p s in
      case erase_first (\<lambda>n. sn_pid n = p) (pendingServices s1) of
        Some (serviceNode, rest) \<Rightarrow> s1\<lparr>pendingServices := rest\<rparr>
      | None \<Rightarrow>
          (case erase_first (\<lambda>n. sn_pid n = p) (registeredServices s1) of
             Some (serviceNode, rest) \<Rightarrow>
               local_unregisterService env (sn_IOR serviceNode) (sn_label serviceNode)
                 (s1\<lparr>registeredServices := rest\<rparr>)
           | None \<Rightarrow> s1))"

text \<open>
  A bounded wait of the shutdown path: the wait is logged with its bound, and the
  children that exit within it are reaped by \<^verbatim>\<open>childExited\<close>, in the order of the pids
  waited for. Only a positive pid is the pid of a process.
\<close>

definition exits_within_wait :: "Env \<Rightarrow> signal \<Rightarrow> int \<Rightarrow> bool" where
  "exits_within_wait env sig p = (0 < p \<and> exits_on env sig p)"

definition reap_during_wait :: "Env \<Rightarrow> signal \<Rightarrow> int \<Rightarrow> int list \<Rightarrow> DeviceManager_impl \<Rightarrow> DeviceManager_impl" where
  "reap_during_wait env sig timeout pids s =
     foldl (\<lambda>t p. childExited env p t) (log_call (Wait timeout) s)
       (filter (exits_within_wait env sig) pids)"

text \<open>\<^verbatim>\<open>killPendingDevices\<close>: the signal goes to every pending device; with a positive
  timeout (in microseconds) the caller then waits until the pending bucket is empty or the
  timeout has passed.\<close>

definition killPendingDevices :: "Env \<Rightarrow> signal \<Rightarrow> int \<Rightarrow> DeviceManager_impl \<Rightarrow> DeviceManager_impl" where
  "killPendingDevices env sig timeout s =
     (let s1 = foldl (\<lambda>t n. log_call (Kill (dn_pid n) sig) t) s (pendingDevices s) in
      if timeout > 0 \<and> pendingDevices s1 \<noteq> []
      then reap_during_wait env sig timeout (map dn_pid (pendingDevices s1)) s1
      else s1)"

text \<open>
  One round of the loop of \<^verbatim>\<open>clean_registeredDevices\<close>. \<^verbatim>\<open>releaseObject\<close> is called
  on the device at the front with a call timeout of 3000 ms and whatever it raises is
  swallowed; a nil reference raises before anything is sent. The mutex is released
  while the call is in flight, and the registered devices may change meanwhile: the
  devices that the environment names call \<^verbatim>\<open>unregisterDevice\<close>, one after the other
  (what such a call raises goes to its own caller). If the record is still at the front
  afterwards, it is erased and, with a pid, appended to the pending devices. The source
  compares pointers there; the model compares the records, which is the same as long as
  no two registered records are equal.
\<close>

definition releaseObject_call :: "Env \<Rightarrow> DeviceNode \<Rightarrow> DeviceManager_impl \<Rightarrow> DeviceManager_impl" where
  "releaseObject_call env deviceNode s =
     (case device deviceNode of
        None \<Rightarrow> s
      | Some deviceRef \<Rightarrow>
          foldl (\<lambda>t d. snd (unregisterDevice env (Some d) t))
            (log_call (Dev_releaseObject (dev_ior deviceRef) 3000) s)
            (during_release env (dev_ior deviceRef)))"

definition release_front :: "Env \<Rightarrow> DeviceNode \<Rightarrow> DeviceManager_impl \<Rightarrow> DeviceManager_impl" where
  "release_front env deviceNode s =
     (let s1 = releaseObject_call env deviceNode s in
      if registeredDevices s1 \<noteq> [] \<and> hd (registeredDevices s1) = deviceNode then
        (let s2 = s1\<lparr>registeredDevices := tl (registeredDevices s1)\<rparr> in
         if dn_pid deviceNode \<noteq> 0
         then s2\<lparr>pendingDevices := pendingDevices s2 @ [deviceNode]\<rparr>
         else s2)
      else s1)"

lemma unregisterDevice_shrinks:
  "registeredDevices (snd (unregisterDevice env p s)) = registeredDevices s \<or>
   length (registeredDevices (snd (unregisterDevice env p s))) < length (registeredDevices s)"
proof (cases p)
  case None
  then show ?thesis by (simp add: unregisterDevice_def)
next
  case (Some dev)
  show ?thesis
  proof (cases "erase_first (\<lambda>n. dn_IOR n = dev_ior dev) (registeredDevices s)")
    case None
    with Some show ?thesis
      by (simp add: unregisterDevice_def decrement_registeredDevices_def split: sum.splits)
  next
    case found: (Some a)
    obtain node rest where a: "a = (node, rest)" by (cases a)
    from found a have "length (registeredDevices s) = Suc (length rest)"
      using erase_first_length by fastforce
    with Some found a show ?thesis
      by (simp add: unregisterDevice_def decrement_registeredDevices_def Let_def
          local_unregisterDevice_def unbind_devMgrContext_def log_call_def
          split: sum.splits)
  qed
qed

lemma foldl_unregisterDevice_shrinks:
  "registeredDevices (foldl (\<lambda>t d. snd (unregisterDevice env (Some d) t)) s ds) =
     registeredDevices s \<or>
   length (registeredDevices (foldl (\<lambda>t d. snd (unregisterDevice env (Some d) t)) s ds)) <
     length (registeredDevices s)"
proof (induction ds arbitrary: s)
  case Nil
  show ?case by simp
next
  case (Cons d ds)
  let ?s1 = "snd (unregisterDevice env (Some d) s)"
  from Cons.IH[of ?s1] unregisterDevice_shrinks[of env "Some d" s]
  show ?case by auto
qed

lemma release_front_shrinks:
  "registeredDevices s = deviceNode # rest \<Longrightarrow>
     length (registeredDevices (release_front env deviceNode s)) < length (registeredDevices s)"
proof -
  assume r: "registeredDevices s = deviceNode # rest"
  let ?s1 = "releaseObject_call env deviceNode s"
  have "registeredDevices ?s1 = registeredDevices s \<or>
        length (registeredDevices ?s1) < length (registeredDevices s)"
  proof (cases "device deviceNode")
    case None
    then show ?thesis by (simp add: releaseObject_call_def)
  next
    case (Some d)
    with foldl_unregisterDevice_shrinks[of env
        "log_call (Dev_releaseObject (dev_ior d) 3000) s" "during_release env (dev_ior d)"]
    show ?thesis by (auto simp: releaseObject_call_def log_call_def)
  qed
  then show ?thesis
  proof
    assume "registeredDevices ?s1 = registeredDevices s"
    with r show ?thesis by (simp add: release_front_def Let_def)
  next
    assume "length (registeredDevices ?s1) < length (registeredDevices s)"
    then show ?thesis by (auto simp: release_front_def Let_def)
  qed
qed

function clean_registeredDevices_loop :: "Env \<Rightarrow> DeviceManager_impl \<Rightarrow> DeviceManager_impl" where
  "clean_registeredDevices_loop env s =
     (case registeredDevices s of
        [] \<Rightarrow> s
      | deviceNode # rest \<Rightarrow> clean_registeredDevices_loop env (release_front env deviceNode s))"
  by pat_completeness auto
termination
proof (relation "measure (\<lambda>(env, s). length (registeredDevices s))")
  show "wf (measure (\<lambda>(env, s). length (registeredDevices s)))" by simp
next
  fix env :: Env and s :: DeviceManager_impl and x21 x22
  assume r: "registeredDevices s = x21 # x22"
  from release_front_shrinks[OF r, of env]
  show "((env, release_front env x21 s), (env, s))
          \<in> measure (\<lambda>(env, s). length (registeredDevices s))"
    by simp
qed

declare clean_registeredDevices_loop.simps [simp del]

text \<open>
  The timeout of the two waits is computed by
  \<^verbatim>\<open>float device_force_quite_time = this->DEVICE_FORCE_QUIT_TIME * 1e6\<close> and handed to
  the parameter \<^verbatim>\<open>int timeout\<close> of \<^verbatim>\<open>killPendingDevices\<close>: the product is rounded
  to single precision and the float is then converted to \<^verbatim>\<open>int\<close>. The member is
  declared in the class header, which is not among the sources; its value is taken as a
  rational and the double-precision product as exact (it is for a member of type
  \<^verbatim>\<open>float\<close>, whose 24-bit significand times \<open>10\<^sup>6 = 2\<^sup>6 \<sqdot> 15625\<close> fits the 53 bits
  of a double).

  A finite single-precision number is \<open>m \<sqdot> 2\<^bsup>e - 23\<^esup>\<close> with \<open>\<bar>m\<bar> < 2\<^sup>2\<^sup>4\<close> and
  \<open>-126 \<le> e \<le> 127\<close>. \<open>binade x\<close> is the exponent \<open>e\<close> used for a positive \<open>x\<close>: the
  least one from -126 on with \<open>x < 2\<^bsup>e + 1\<^esup>\<close>. \<open>round_half_even\<close> rounds to the nearest
  integer, a tie to the even one. \<open>float_of_double\<close> rounds a number to single
  precision; \<open>None\<close> is an infinity.
\<close>

definition binade :: "rat \<Rightarrow> int option" where
  "binade x = find (\<lambda>e. x < 2 powi (e + 1)) [-126..127]"

definition round_half_even :: "rat \<Rightarrow> int" where
  "round_half_even k =
     (let f = \<lfloor>k\<rfloor>; d = k - of_int f
      in if d < 1 / 2 then f else if 1 / 2 < d then f + 1 else if even f then f else f + 1)"

definition float_of_double :: "rat \<Rightarrow> rat option" where
  "float_of_double x =
     (case binade \<bar>x\<bar> of
        None \<Rightarrow> None
      | Some e \<Rightarrow>
          (let q = 2 powi (e - 23);
               r = sgn x * of_int (round_half_even (\<bar>x\<bar> / q)) * q
           in if 2 powi 128 \<le> \<bar>r\<bar> then None else Some r))"

text \<open>
  The conversion of a float to \<^verbatim>\<open>int\<close> truncates towards zero. When the truncated value
  does not fit the 32 bits of an \<^verbatim>\<open>int\<close> (or the float is an infinity) the behaviour is
  undefined; the program then continues with the \<^verbatim>\<open>int\<close> that the environment names
  (on x86-64 the conversion instruction yields the least \<^verbatim>\<open>int\<close>).
\<close>

definition truncation :: "rat \<Rightarrow> int" where
  "truncation r = (if 0 \<le> r then \<lfloor>r\<rfloor> else \<lceil>r\<rceil>)"

definition int_of_float :: "Env \<Rightarrow> rat option \<Rightarrow> int" where
  "int_of_float env f =
     (case f of
        None \<Rightarrow> out_of_range_int env
      | Some r \<Rightarrow>
          if - (2 ^ 31) \<le> truncation r \<and> truncation r < 2 ^ 31 then truncation r
          else out_of_range_int env)"

definition device_force_quite_time :: "DeviceManager_impl \<Rightarrow> rat option" where
  "device_force_quite_time s = float_of_double (DEVICE_FORCE_QUIT_TIME s * 1000000)"

definition clean_registeredDevices :: "Env \<Rightarrow> DeviceManager_impl \<Rightarrow> DeviceManager_impl" where
  "clean_registeredDevices env s =
     (let s1 = clean_registeredDevices_loop env s;
          s2 = killPendingDevices env SIGINT (int_of_float env (device_force_quite_time s1)) s1;
          s3 = killPendingDevices env SIGTERM (int_of_float env (device_force_quite_time s1)) s2
      in killPendingDevices env SIGKILL 0 s3)"

text \<open>
  \<^verbatim>\<open>clean_registeredServices\<close>: SIGTERM to the pending services and to the registered
  ones with a pid, a wait of at most half a second while any of the pids collected at the
  start is alive, then SIGKILL to the same two groups.
\<close>

definition kill_services :: "signal \<Rightarrow> ServiceNode list \<Rightarrow> DeviceManager_impl \<Rightarrow> DeviceManager_impl" where
  "kill_services sig nodes s = foldl (\<lambda>t n. log_call (Kill (sn_pid n) sig) t) s nodes"

definition clean_registeredServices :: "Env \<Rightarrow> DeviceManager_impl \<Rightarrow> DeviceManager_impl" where
  "clean_registeredServices env s =
     (let pids = map sn_pid (registeredServices s) @ map sn_pid (pendingServices s);
          s1 = kill_services SIGTERM (pendingServices s) s;
          s2 = kill_services SIGTERM (filter (\<lambda>n. sn_pid n \<noteq> 0) (registeredServices s1)) s1;
          s3 = (if pids \<noteq> [] then reap_during_wait env SIGTERM 500000 pids s2 else s2);
          s4 = kill_services SIGKILL (pendingServices s3) s3
      in kill_services SIGKILL (filter (\<lambda>n. sn_pid n \<noteq> 0) (registeredServices s4)) s4)"

text \<open>\<^verbatim>\<open>clean_externalServices\<close>: the first registered service without a pid is
  unbound; its record stays where it is.\<close>

definition clean_externalServices :: "Env \<Rightarrow> DeviceManager_impl \<Rightarrow> DeviceManager_impl" where
  "clean_externalServices env s =
     (case find (\<lambda>n. sn_pid n = 0) (registeredServices s) of
        Some serviceNode \<Rightarrow>
          local_unregisterService env (sn_IOR serviceNode) (sn_label serviceNode) s
      | None \<Rightarrow> s)"

text \<open>
  \<^verbatim>\<open>shutdown\<close>. The flag is set first, whatever the state. The release of the
  event-channel registration and \<^verbatim>\<open>deleteFileSystems\<close> touch nothing of the state kept
  here and are left out.
\<close>

definition shutdown :: "Env \<Rightarrow> DeviceManager_impl \<Rightarrow> DeviceManager_impl" where
  "shutdown env s =
     (let s0 = s\<lparr>internalShutdown := True\<rparr> in
      if adminState s0 = DEVMGR_SHUTTING_DOWN \<or> adminState s0 = DEVMGR_SHUTDOWN then s0
      else
        (let s1 = s0\<lparr>adminState := DEVMGR_SHUTTING_DOWN\<rparr>;
             s2 = (if dmnMgr s1 \<noteq> None then log_call Dom_unregisterDeviceManager s1 else s1);
             s3 = clean_registeredServices env s2;
             s4 = clean_externalServices env s3;
             s5 = clean_registeredDevices env s4;
             s6 = unbind_rootContext env (mgr_label s5) s5
         in s6\<lparr>adminState := DEVMGR_SHUTDOWN\<rparr>))"

section \<open>The snapshots\<close>

text \<open>
  \<^verbatim>\<open>registeredDevices()\<close> and \<^verbatim>\<open>registeredServices()\<close>, the attribute readers. The
  try block allocates the sequence (step 0), sets its length (step 1) and copies element
  \<open>ii\<close> (step \<open>2 + ii\<close>); \<open>fails_at\<close> names the step that raises, if one does. The
  catch-all clause answers with a fresh empty sequence, whose allocation is taken to
  succeed. An entry of the service sequence is the object and the name.
\<close>

definition registeredDevices_try :: "nat option \<Rightarrow> DeviceManager_impl \<Rightarrow> exn + Device option list" where
  "registeredDevices_try fails_at s =
     (case fails_at of
        None \<Rightarrow> Inr (map device (registeredDevices s))
      | Some k \<Rightarrow>
          if k < 2 + length (registeredDevices s) then Inl StdException
          else Inr (map device (registeredDevices s)))"

definition registeredDevices_attr :: "nat option \<Rightarrow> DeviceManager_impl \<Rightarrow> exn + Device option list" where
  "registeredDevices_attr fails_at s =
     (case registeredDevices_try fails_at s of
        Inl e \<Rightarrow> Inr []
      | Inr result \<Rightarrow> Inr result)"

definition registeredServices_try :: "nat option \<Rightarrow> DeviceManager_impl \<Rightarrow> exn + (Object_ptr \<times> string) list" where
  "registeredServices_try fails_at s =
     (case fails_at of
        None \<Rightarrow> Inr (map (\<lambda>n. (service n, sn_label n)) (registeredServices s))
      | Some k \<Rightarrow>
          if k < 2 + length (registeredServices s) then Inl StdException
          else Inr (map (\<lambda>n. (service n, sn_label n)) (registeredServices s)))"

definition registeredServices_attr :: "nat option \<Rightarrow> DeviceManager_impl \<Rightarrow> exn + (Object_ptr \<times> string) list" where
  "registeredServices_attr fails_at s =
     (case registeredServices_try fails_at s of
        Inl e \<Rightarrow> Inr []
      | Inr result \<Rightarrow> Inr result)"

section \<open>Startup planning\<close>

text \<open>\<^verbatim>\<open>ComponentInstantiation\<close> and \<^verbatim>\<open>ComponentPlacement\<close> of the parsed node
  profile (DCD), as far as startup reads them.\<close>

record ComponentInstantiation =
  inst_id :: string
  usageName :: string

record ComponentPlacement =
  fileRefId :: string
  instantiations :: "ComponentInstantiation list"
  compositePartOfDeviceID :: "string option"

definition isCompositePartOf :: "ComponentPlacement \<Rightarrow> bool" where
  "isCompositePartOf p = (compositePartOfDeviceID p \<noteq> None)"

type_synonym Deployment = "ComponentPlacement \<times> ProgramProfile"

text \<open>
  What the file systems and the rest of the node answer during startup: the profile that
  \<^verbatim>\<open>LoadProfile\<close> builds for the file of a placement (or the exception it or the file
  lookup raises), the join of two property sets, whether a property file can be joined,
  the local path of an entry point, whether a local file can be accessed, and the
  stringified reference under which the device with an instantiation id registers, if it
  ever does.
\<close>

record Sdr =
  LoadProfile :: "string \<Rightarrow> exn + ProgramProfile"
  prf_join :: "Properties \<Rightarrow> Properties \<Rightarrow> Properties"
  joinPRFProperties :: "string \<Rightarrow> bool"
  getLocalPath :: "string \<Rightarrow> string"
  access :: "string \<Rightarrow> bool"
  registers_as :: "string \<Rightarrow> string option"

text \<open>The two properties that \<^verbatim>\<open>setupImplementationForHost\<close> builds from the host's
  \<^verbatim>\<open>uname\<close>: the processor name is the machine, the OS name is the sysname.\<close>

definition processor_name_id :: string where
  "processor_name_id = ''DCE:fefb9c66-d14a-438d-ad59-2cfd1adb272b''"

definition os_name_id :: string where
  "os_name_id = ''DCE:4a23ad60-0b25-4121-a630-68803a498f75''"

definition host_props :: "string \<Rightarrow> string \<Rightarrow> Properties" where
  "host_props machine sysname = [(processor_name_id, machine), (os_name_id, sysname)]"

text \<open>
  Modelled from the spec: \<^verbatim>\<open>ImplementationInfo::checkProcessorAndOs\<close> (defined in
  \<^verbatim>\<open>spdSupport.cpp\<close>, not among the sources). An implementation variant is matched
  against a property set iff its processor equals the processor name and its osName
  equals the OS name found there.
\<close>

definition checkProcessorAndOs :: "ImplementationInfo \<Rightarrow> Properties \<Rightarrow> bool" where
  "checkProcessorAndOs impl props =
     (map_of props processor_name_id = Some (processor impl) \<and>
      map_of props os_name_id = Some (osName impl))"

text \<open>
  \<^verbatim>\<open>setupImplementationForHost\<close>: the first implementation of the manager's own
  profile that matches the host is selected and the host properties are joined into the
  profile's property set; with no implementation at all, or none that matches, it throws
  \<^verbatim>\<open>std::runtime_error\<close>.
\<close>

definition setupImplementationForHost :: "Sdr \<Rightarrow> string \<Rightarrow> string \<Rightarrow> ProgramProfile \<Rightarrow> exn + ProgramProfile" where
  "setupImplementationForHost sdr machine sysname devmgr_info =
     (if implementations devmgr_info = [] then
        Inl (runtime_error ''Device manager SPD has no implementations to match against.'')
      else
        (case find (\<lambda>impl. checkProcessorAndOs impl (host_props machine sysname))
                (implementations devmgr_info) of
           Some impl \<Rightarrow>
             Inr (devmgr_info\<lparr>selectedImplementation := Some impl,
                    prf_properties := prf_join sdr (prf_properties devmgr_info) (host_props machine sysname)\<rparr>)
         | None \<Rightarrow>
             Inl (runtime_error
                    (''Unable to find device manager implementation to match processor: '' @ machine))))"

text \<open>\<^verbatim>\<open>resolveImplementation\<close>: the first implementation of a child's profile that
  matches the manager's property set is selected. The answer is that implementation with
  the profile that records it; \<open>None\<close> is the result \<^verbatim>\<open>false\<close>.\<close>

definition resolveImplementation :: "Properties \<Rightarrow> ProgramProfile \<Rightarrow> (ImplementationInfo \<times> ProgramProfile) option" where
  "resolveImplementation devmgr_prf rsc =
     (case find (\<lambda>impl. checkProcessorAndOs impl devmgr_prf) (implementations rsc) of
        Some impl \<Rightarrow> Some (impl, rsc\<lparr>selectedImplementation := Some impl\<rparr>)
      | None \<Rightarrow> None)"

text \<open>
  \<^verbatim>\<open>resolveSoftpkgDependencies\<close> and \<^verbatim>\<open>resolveDependencyImplementation\<close>, with their
  two loops: every dependency of the implementation needs an implementation that matches
  and whose own dependencies resolve. Only the answer is kept; the selection that the
  source records in each dependency is left out.
\<close>

fun resolveSoftpkgDependencies :: "Properties \<Rightarrow> ImplementationInfo \<Rightarrow> bool"
  and resolve_each_softpkg :: "Properties \<Rightarrow> SoftpkgInfo list \<Rightarrow> bool"
  and resolveDependencyImplementation :: "Properties \<Rightarrow> SoftpkgInfo \<Rightarrow> ImplementationInfo option"
  and first_resolved_implementation :: "Properties \<Rightarrow> ImplementationInfo list \<Rightarrow> ImplementationInfo option"
where
  "resolveSoftpkgDependencies props (ImplementationInfo i p os ct pf ep deps) =
     resolve_each_softpkg props deps"
| "resolve_each_softpkg props [] = True"
| "resolve_each_softpkg props (pkg # pkgs) =
     (case resolveDependencyImplementation props pkg of
        Some spdImplInfo \<Rightarrow> resolve_each_softpkg props pkgs
      | None \<Rightarrow> False)"
| "resolveDependencyImplementation props (SoftpkgInfo n spd_list) =
     first_resolved_implementation props spd_list"
| "first_resolved_implementation props [] = None"
| "first_resolved_implementation props (implementation # impls) =
     (if \<not> checkProcessorAndOs implementation props
      then first_resolved_implementation props impls
      else if resolveSoftpkgDependencies props implementation then Some implementation
      else first_resolved_implementation props impls)"

text \<open>
  The try block of the planning loop of \<^verbatim>\<open>postConstructor\<close> for one placement: load
  the profile, select an implementation, resolve its softpkg dependencies, and classify.
  The answer is the deployment together with the flag "composite part of a device and a
  shared library", or the exception thrown.
\<close>

definition try_placement :: "Sdr \<Rightarrow> ProgramProfile \<Rightarrow> ComponentPlacement \<Rightarrow> exn + (Deployment \<times> bool)" where
  "try_placement sdr devmgr_info componentPlacement =
     (case LoadProfile sdr (fileRefId componentPlacement) of
        Inl e \<Rightarrow> Inl e
      | Inr newResource \<Rightarrow>
          (case resolveImplementation (prf_properties devmgr_info) newResource of
             None \<Rightarrow> Inl (runtime_error ''No available device implementations match device manager'')
           | Some (matchingImpl, rsc) \<Rightarrow>
               if \<not> resolveSoftpkgDependencies (prf_properties devmgr_info) matchingImpl then
                 Inl (runtime_error
                        ''No available softpkg dependenices match device manager implementation'')
               else
                 (let isSharedLibrary = (codeType matchingImpl = SHARED_LIBRARY);
                      isCompositePartOf = isCompositePartOf componentPlacement
                  in Inr ((componentPlacement, rsc), isCompositePartOf \<and> isSharedLibrary))))"

text \<open>
  The planning loop. Before the try block the source reads \<^verbatim>\<open>instantiations[0]\<close> of
  the placement, which is undefined behaviour for a placement without instantiation: the
  answer is \<open>None\<close> then. Both catch clauses log and continue with the next placement.
\<close>

fun plan_placements :: "Sdr \<Rightarrow> ProgramProfile \<Rightarrow> ComponentPlacement list \<Rightarrow> Deployment list \<times> Deployment list \<Rightarrow> (Deployment list \<times> Deployment list) option" where
  "plan_placements sdr devmgr_info [] (standalone, composite) = Some (standalone, composite)"
| "plan_placements sdr devmgr_info (p # ps) (standalone, composite) =
     (if instantiations p = [] then None
      else (case try_placement sdr devmgr_info p of
              Inl e \<Rightarrow> plan_placements sdr devmgr_info ps (standalone, composite)
            | Inr (d, is_composite) \<Rightarrow>
                if is_composite
                then plan_placements sdr devmgr_info ps (standalone, composite @ [d])
                else plan_placements sdr devmgr_info ps (standalone @ [d], composite)))"

section \<open>Launching the planned children\<close>

text \<open>
  The launch itself (\<^verbatim>\<open>createDeviceThreadAndHandleExceptions\<close>, which is not among the
  sources) is an entry of a log: the instantiation id, the component type, the code file
  path and the reference of the composite device handed to the child.
\<close>

datatype launch =
  Launch (launch_id: string) (launch_type: string) (launch_code: string) (launch_ior: string)

text \<open>
  The launching loops run while the status is \<open>Running\<close>. They hang when the source
  polls for the reference of a parent that never registers, and have undefined behaviour
  where the source reads \<^verbatim>\<open>instantiations[0]\<close> of a placement without instantiation or
  builds a string from a null pointer.
\<close>

datatype run_status = Running | Hung | UndefinedBehaviour

record Startup =
  deployed :: "Deployment list"
  componentImplMap :: "string \<rightharpoonup> string"
  launched :: "launch list"
  status :: run_status

definition initial_Startup :: Startup where
  "initial_Startup =
     \<lparr>deployed = [], componentImplMap = Map.empty, launched = [], status = Running\<rparr>"

text \<open>\<^verbatim>\<open>addDeviceImplProperties\<close>, as far as it can fail: an implementation-specific
  property file is joined when there is one.\<close>

definition addDeviceImplProperties :: "Sdr \<Rightarrow> ImplementationInfo \<Rightarrow> bool" where
  "addDeviceImplProperties sdr deviceImpl =
     (if propertyFile deviceImpl \<noteq> [] then joinPRFProperties sdr (propertyFile deviceImpl)
      else True)"

text \<open>\<^verbatim>\<open>getCodeFilePath\<close>; the entry point stands for its normalised absolute path.\<close>

definition getCodeFilePath :: "Sdr \<Rightarrow> ImplementationInfo \<Rightarrow> bool \<Rightarrow> string option" where
  "getCodeFilePath sdr matchedDeviceImpl useLocalFileSystem =
     (if entryPoint matchedDeviceImpl = [] then None
      else
        (let localFilePath = getLocalPath sdr (entryPoint matchedDeviceImpl);
             codeFilePath = (if useLocalFileSystem then localFilePath
                             else entryPoint matchedDeviceImpl)
         in if codeFilePath = [] then None
            else if \<not> access sdr localFilePath then None
            else Some codeFilePath))"

text \<open>\<^verbatim>\<open>getDeviceOrService\<close>: the three device types are normalised to "device"; any
  type but "device" and "service" is unsupported.\<close>

definition getDeviceOrService :: "ProgramProfile \<Rightarrow> string option" where
  "getDeviceOrService compProfile =
     (let type0 = componentType compProfile;
          type1 = (if type0 = ''device'' \<or> type0 = ''loadabledevice'' \<or>
                      type0 = ''executabledevice'' then ''device'' else type0)
      in if type1 = ''device'' \<or> type1 = ''service'' then Some type1 else None)"

text \<open>
  \<^verbatim>\<open>getCompositeDeviceIOR\<close>: for a placement that is a composite part, each
  instantiation of the node profile with the parent's id is waited for until the parent
  has registered; \<open>None\<close> when that never happens. Without such an instantiation the
  reference stays empty.
\<close>

definition getCompositeDeviceIOR :: "Sdr \<Rightarrow> ComponentPlacement list \<Rightarrow> ComponentPlacement \<Rightarrow> string option" where
  "getCompositeDeviceIOR sdr componentPlacements componentPlacementInst =
     (case compositePartOfDeviceID componentPlacementInst of
        None \<Rightarrow> Some []
      | Some parentDeviceRefid \<Rightarrow>
          if list_ex (\<lambda>p. list_ex (\<lambda>i. inst_id i = parentDeviceRefid) (instantiations p))
               componentPlacements
          then (case registers_as sdr parentDeviceRefid of
                  None \<Rightarrow> None
                | Some tmpior \<Rightarrow> if tmpior = [] then None else Some tmpior)
          else Some [])"

text \<open>The body of the loop over the instantiations of a standalone placement.\<close>

definition launch_instantiation :: "Sdr \<Rightarrow> Deployment \<Rightarrow> ImplementationInfo \<Rightarrow> string \<Rightarrow> Startup \<Rightarrow> ComponentInstantiation \<Rightarrow> Startup" where
  "launch_instantiation sdr d matchingImpl compositeDeviceIOR st instantiation =
     (let st1 = st\<lparr>componentImplMap :=
                    (componentImplMap st)(inst_id instantiation \<mapsto> impl_id matchingImpl)\<rparr>
      in case getCodeFilePath sdr matchingImpl True of
           None \<Rightarrow> st1
         | Some codeFilePath \<Rightarrow>
             (case getDeviceOrService (snd d) of
                None \<Rightarrow> st1
              | Some component_type \<Rightarrow>
                  st1\<lparr>deployed := deployed st1 @ [d],
                      launched := launched st1 @
                        [Launch (inst_id instantiation) component_type codeFilePath
                           compositeDeviceIOR]\<rparr>))"

text \<open>The body of the loop over the standalone placements.\<close>

definition launch_standalone :: "Sdr \<Rightarrow> ComponentPlacement list \<Rightarrow> Startup \<Rightarrow> Deployment \<Rightarrow> Startup" where
  "launch_standalone sdr componentPlacements st d =
     (if status st \<noteq> Running then st
      else if instantiations (fst d) = [] then st\<lparr>status := UndefinedBehaviour\<rparr>
      else
        (case selectedImplementation (snd d) of
           None \<Rightarrow> st
         | Some matchingImpl \<Rightarrow>
             if \<not> addDeviceImplProperties sdr matchingImpl then st
             else
               (case getCompositeDeviceIOR sdr componentPlacements (fst d) of
                  None \<Rightarrow> st\<lparr>status := Hung\<rparr>
                | Some compositeDeviceIOR \<Rightarrow>
                    foldl (launch_instantiation sdr d matchingImpl compositeDeviceIOR) st
                      (instantiations (fst d)))))"

text \<open>The body of the loop over the instantiations of a composite placement: the code
  file path is not mapped to the local file system and the type is "SharedLibrary".\<close>

definition launch_composite_instantiation :: "Sdr \<Rightarrow> Deployment \<Rightarrow> ImplementationInfo \<Rightarrow> string \<Rightarrow> Startup \<Rightarrow> ComponentInstantiation \<Rightarrow> Startup" where
  "launch_composite_instantiation sdr cd matchingImpl compositeDeviceIOR st instantiation =
     (let st1 = st\<lparr>componentImplMap :=
                    (componentImplMap st)(inst_id instantiation \<mapsto> impl_id matchingImpl)\<rparr>
      in case getCodeFilePath sdr matchingImpl False of
           None \<Rightarrow> st1
         | Some codeFilePath \<Rightarrow>
             st1\<lparr>deployed := deployed st1 @ [cd],
                 launched := launched st1 @
                   [Launch (inst_id instantiation) ''SharedLibrary'' codeFilePath
                      compositeDeviceIOR]\<rparr>)"

definition parent_deployed :: "Startup \<Rightarrow> string \<Rightarrow> bool" where
  "parent_deployed st parent_inst_id =
     list_ex (\<lambda>d. list_ex (\<lambda>i. inst_id i = parent_inst_id) (instantiations (fst d)))
       (deployed st)"

text \<open>
  For one composite placement the source walks the standalone placements. The parent's
  implementation and the flag "parent found among the deployed" are set when a standalone
  placement has an instantiation with the parent's id, and are never reset; the rest of
  the body, which launches the composite, runs in every round in which the flag is set.
\<close>

fun composite_scan :: "Sdr \<Rightarrow> ComponentPlacement list \<Rightarrow> Deployment \<Rightarrow> string \<Rightarrow> Deployment list \<Rightarrow> ImplementationInfo option \<Rightarrow> bool \<Rightarrow> Startup \<Rightarrow> Startup" where
  "composite_scan sdr cps cd parent_id [] parentImpl foundCompositeDeployed st = st"
| "composite_scan sdr cps cd parent_id (sd # sds) parentImpl foundCompositeDeployed st =
     (if status st \<noteq> Running then st
      else
        (let is_parent = list_ex (\<lambda>i. inst_id i = parent_id) (instantiations (fst sd));
             parentImpl' = (if is_parent then selectedImplementation (snd sd) else parentImpl);
             found' = (if is_parent \<and> parent_deployed st parent_id then True
                       else foundCompositeDeployed);
             st' =
               (if \<not> found' then st
                else
                  (case selectedImplementation (snd cd) of
                     None \<Rightarrow> st
                   | Some matchingImpl \<Rightarrow>
                       if parentImpl' = None then st
                       else if \<not> addDeviceImplProperties sdr matchingImpl then st
                       else
                         (case getCompositeDeviceIOR sdr cps (fst cd) of
                            None \<Rightarrow> st\<lparr>status := Hung\<rparr>
                          | Some compositeDeviceIOR \<Rightarrow>
                              foldl (launch_composite_instantiation sdr cd matchingImpl
                                       compositeDeviceIOR) st (instantiations (fst cd)))))
         in composite_scan sdr cps cd parent_id sds parentImpl' found' st'))"

text \<open>The body of the loop over the composite placements.\<close>

definition launch_composite :: "Sdr \<Rightarrow> ComponentPlacement list \<Rightarrow> Deployment list \<Rightarrow> Startup \<Rightarrow> Deployment \<Rightarrow> Startup" where
  "launch_composite sdr cps standalone st cd =
     (if status st \<noteq> Running then st
      else
        (case compositePartOfDeviceID (fst cd) of
           None \<Rightarrow> st\<lparr>status := UndefinedBehaviour\<rparr>
         | Some parent_id \<Rightarrow> composite_scan sdr cps cd parent_id standalone None False st))"

text \<open>
  The deployment part of \<^verbatim>\<open>postConstructor\<close>: the manager's implementation is
  matched, the placements are planned, the standalone ones are launched and then the
  composite ones. The steps in between (reaching the Domain Manager and registering with
  it, the naming context, the cache directory) belong to other parts of the manager and
  are left out; each of them can end the startup too.
\<close>

definition launch_all :: "Sdr \<Rightarrow> ComponentPlacement list \<Rightarrow> Deployment list \<Rightarrow> Deployment list \<Rightarrow> Startup" where
  "launch_all sdr cps standalone composite =
     foldl (launch_composite sdr cps standalone)
       (foldl (launch_standalone sdr cps) initial_Startup standalone) composite"

definition postConstructor_deployment :: "Sdr \<Rightarrow> string \<Rightarrow> string \<Rightarrow> ProgramProfile \<Rightarrow> ComponentPlacement list \<Rightarrow> exn + Startup" where
  "postConstructor_deployment sdr machine sysname devmgr_info componentPlacements =
     (case setupImplementationForHost sdr machine sysname devmgr_info of
        Inl e \<Rightarrow> Inl e
      | Inr info \<Rightarrow>
          (case plan_placements sdr info componentPlacements ([], []) of
             None \<Rightarrow> Inr (initial_Startup\<lparr>status := UndefinedBehaviour\<rparr>)
           | Some (standalone, composite) \<Rightarrow>
               Inr (launch_all sdr componentPlacements standalone composite)))"

section \<open>Vocabulary for the teardown\<close>

text \<open>The calls of the teardown of the devices: \<^verbatim>\<open>releaseObject\<close>, signals and waits.\<close>

definition is_teardown_call :: "call \<Rightarrow> bool" where
  "is_teardown_call c = (case c of Dev_releaseObject i t \<Rightarrow> True | Kill p sg \<Rightarrow> True | Wait t \<Rightarrow> True | _ \<Rightarrow> False)"

definition teardown_calls :: "DeviceManager_impl \<Rightarrow> call list" where
  "teardown_calls s = filter is_teardown_call (calls s)"

text \<open>What one reaped pid does to the pending devices.\<close>

definition reap_pending :: "int \<Rightarrow> DeviceNode list \<Rightarrow> DeviceNode list" where
  "reap_pending p ns = (case erase_first (\<lambda>n. dn_pid n = p) ns of Some (n, rest) \<Rightarrow> rest | None \<Rightarrow> ns)"

text \<open>
  The registered devices are well formed when every record holds the reference whose
  stringified form it stores, and no two records store the same one.
\<close>

definition registered_wellformed :: "DeviceManager_impl \<Rightarrow> bool" where
  "registered_wellformed s =
     (list_all (\<lambda>n. map_option dev_ior (device n) = Some (dn_IOR n)) (registeredDevices s) \<and>
      distinct (map dn_IOR (registeredDevices s)))"



text \<open>The signal sent to each of a list of devices, the wait that follows when the
  timeout is positive and there is a device to wait for, and the devices that are still
  there after it: without a wait all of them, after a wait those that have not exited
  within it.\<close>

definition kills :: "signal \<Rightarrow> DeviceNode list \<Rightarrow> call list" where
  "kills sig ns = map (\<lambda>n. Kill (dn_pid n) sig) ns"





text \<open>
  What unregistrations by devices with references among \<open>A\<close> make of a state: registered
  devices leave their bucket, those with a pid join the pending devices at the end, and
  nothing else that the teardown reads has changed.
\<close>

definition drained :: "string set \<Rightarrow> DeviceManager_impl \<Rightarrow> DeviceManager_impl \<Rightarrow> bool" where
  "drained A s t =
     (subseq (registeredDevices t) (registeredDevices s) \<and>
      (\<exists>Y. pendingDevices t = pendingDevices s @ Y \<and>
           mset Y + mset (filter (\<lambda>n. dn_pid n \<noteq> 0) (registeredDevices t)) =
             mset (filter (\<lambda>n. dn_pid n \<noteq> 0) (registeredDevices s))) \<and>
      list_all (\<lambda>n. n \<in> set (registeredDevices t) \<or> dn_IOR n \<in> A) (registeredDevices s) \<and>
      teardown_calls t = teardown_calls s \<and>
      DEVICE_FORCE_QUIT_TIME t = DEVICE_FORCE_QUIT_TIME s \<and>
      internalShutdown t = internalShutdown s)"

section \<open>Vocabulary for the plan\<close>

text \<open>The placements of a node profile whose resolution succeeds, in input order, each
  with its deployment and its classification.\<close>

definition resolved_placements :: "Sdr \<Rightarrow> ProgramProfile \<Rightarrow> ComponentPlacement list \<Rightarrow> (Deployment \<times> bool) list" where
  "resolved_placements sdr info ps =
     List.map_filter
       (\<lambda>p. case try_placement sdr info p of Inl e \<Rightarrow> None | Inr r \<Rightarrow> Some r) ps"

text \<open>The instantiation ids of a list of deployments, in order.\<close>

definition instantiation_ids :: "Deployment list \<Rightarrow> string list" where
  "instantiation_ids ds = concat (map (\<lambda>d. map inst_id (instantiations (fst d))) ds)"

text \<open>A standalone deployment for which nothing fails at launch time.\<close>

definition launchable :: "Sdr \<Rightarrow> ComponentPlacement list \<Rightarrow> Deployment \<Rightarrow> bool" where
  "launchable sdr cps d =
     (instantiations (fst d) \<noteq> [] \<and>
      (case selectedImplementation (snd d) of
         None \<Rightarrow> False
       | Some matchingImpl \<Rightarrow>
           addDeviceImplProperties sdr matchingImpl \<and>
           getCodeFilePath sdr matchingImpl True \<noteq> None) \<and>
      getCompositeDeviceIOR sdr cps (fst d) \<noteq> None \<and>
      getDeviceOrService (snd d) \<noteq> None)"

text \<open>A launch with the component type of a standalone child, and one of a composite
  child among given instantiation ids.\<close>

definition standalone_type :: "launch \<Rightarrow> bool" where
  "standalone_type l = (launch_type l = ''device'' \<or> launch_type l = ''service'')"

definition composite_launch_of :: "string list \<Rightarrow> launch \<Rightarrow> bool" where
  "composite_launch_of ids l = (launch_type l = ''SharedLibrary'' \<and> launch_id l \<in> set ids)"

section \<open>Concrete managers, children and environments\<close>

text \<open>The inputs at which the theorems below are instantiated and the model is evaluated.\<close>

definition example_env :: Env where
  "example_env =
     \<lparr>ns_unreachable = False,
      dom_registerDevice = (\<lambda>ior. None),
      dom_registerService = (\<lambda>ior name. None),
      during_release = (\<lambda>ior. []),
      exits_on = (\<lambda>sig p. False),
      out_of_range_int = - (2 ^ 31)\<rparr>"



definition example_device :: Device where
  "example_device =
     \<lparr>dev_ior = ''IOR:gpp'',
      dev_identifier = Inr ''gpp_1'',
      dev_label = Inr ''GPP'',
      dev_softwareProfile = Inr ''/devices/GPP/GPP.spd.xml'',
      dev_initializeProperties = None,
      dev_initialize = None,
      dev_configure = None\<rparr>"

text \<open>A reference to the same device at a time when it does not answer: the read of its
  label ends with a CORBA system exception.\<close>

definition example_silent_device :: Device where
  "example_silent_device = example_device\<lparr>dev_label := Inl SystemException\<rparr>"

definition example_profile :: ProgramProfile where
  "example_profile =
     \<lparr>instantiationIdentifier = ''gpp_1'',
      isConfigurable = True,
      nonNilConstructProperties = [''threshold''],
      nonNilConfigureProperties = [''reserved''],
      implementations = [],
      selectedImplementation = None,
      componentType = ''device'',
      prf_properties = []\<rparr>"

text \<open>A manager registered with its domain that has deployed one device and has no
  child yet.\<close>

definition example_manager :: DeviceManager_impl where
  "example_manager =
     \<lparr>mgr_label = ''DevMgr_node'',
      dmnMgr = Some ''IOR:domain'',
      adminState = DEVMGR_REGISTERED,
      internalShutdown = False,
      pendingDevices = [],
      registeredDevices = [],
      pendingServices = [],
      registeredServices = [],
      deployed_comps = [example_profile],
      devMgrContext = Map.empty,
      rootContext = Map.empty,
      DEVICE_FORCE_QUIT_TIME = 1 / 2,
      calls = []\<rparr>"

definition example_device_node :: DeviceNode where
  "example_device_node =
     \<lparr>dn_identifier = ''gpp_1'', dn_label = ''GPP'', dn_IOR = ''IOR:gpp'',
      device = Some example_device, dn_pid = 4711\<rparr>"

definition example_service_node :: ServiceNode where
  "example_service_node =
     \<lparr>sn_identifier = ''svc_1'', sn_label = ''usage'', sn_IOR = ''IOR:svc'',
      service = Some ''IOR:svc'', sn_pid = 0\<rparr>"

text \<open>The same manager with one registered device that it launched (pid 4711) and one
  registered service that it did not launch (pid 0).\<close>

definition example_registered :: DeviceManager_impl where
  "example_registered =
     example_manager
       \<lparr>registeredDevices := [example_device_node],
        registeredServices := [example_service_node],
        devMgrContext := [''GPP'' \<mapsto> ''IOR:gpp''],
        rootContext := [''usage'' \<mapsto> ''IOR:svc'']\<rparr>"






text \<open>The manager while \<^verbatim>\<open>shutdown()\<close> is in progress: the flag is set and the
  administrative state is ShuttingDown.\<close>

definition example_shutting_down :: DeviceManager_impl where
  "example_shutting_down =
     example_manager\<lparr>adminState := DEVMGR_SHUTTING_DOWN, internalShutdown := True\<rparr>"

text \<open>The manager after \<^verbatim>\<open>shutdown()\<close> has run to its end without any child.\<close>

definition example_shut_down :: DeviceManager_impl where
  "example_shut_down =
     example_manager
       \<lparr>adminState := DEVMGR_SHUTDOWN, internalShutdown := True,
        calls := [Dom_unregisterDeviceManager, NS_unbind ''DevMgr_node'']\<rparr>"

text \<open>
  A node on an x86_64 Linux host. The manager's own profile has an implementation for
  ppc and one for x86_64. The node profile places a device, a shared library that is a
  composite part of that device, and a program whose profile cannot be loaded.
\<close>

definition example_sdr :: Sdr where
  "example_sdr =
     \<lparr>LoadProfile =
        (\<lambda>f. if f = ''gpp_file'' then
                Inr \<lparr>instantiationIdentifier = [], isConfigurable = True,
                     nonNilConstructProperties = [], nonNilConfigureProperties = [],
                     implementations =
                       [ImplementationInfo ''gpp_cpp'' ''x86_64'' ''Linux'' EXECUTABLE []
                          ''/devices/GPP/cpp/GPP'' []],
                     selectedImplementation = None, componentType = ''executabledevice'',
                     prf_properties = []\<rparr>
              else if f = ''lib_file'' then
                Inr \<lparr>instantiationIdentifier = [], isConfigurable = True,
                     nonNilConstructProperties = [], nonNilConfigureProperties = [],
                     implementations =
                       [ImplementationInfo ''lib_cpp'' ''x86_64'' ''Linux'' SHARED_LIBRARY []
                          ''/devices/Child/cpp/libChild.so'' []],
                     selectedImplementation = None, componentType = ''device'',
                     prf_properties = []\<rparr>
              else Inl (runtime_error ''file not found'')),
      prf_join = (\<lambda>p q. p @ q),
      joinPRFProperties = (\<lambda>f. True),
      getLocalPath = (\<lambda>p. ''/sdr/dev'' @ p),
      access = (\<lambda>p. True),
      registers_as = (\<lambda>i. if i = ''gpp_1'' then Some ''IOR:gpp'' else None)\<rparr>"

definition example_devmgr_info :: ProgramProfile where
  "example_devmgr_info =
     \<lparr>instantiationIdentifier = [], isConfigurable = False,
      nonNilConstructProperties = [], nonNilConfigureProperties = [],
      implementations =
        [ImplementationInfo ''mgr_ppc'' ''ppc'' ''Linux'' EXECUTABLE [] ''/mgr/DeviceManager'' [],
         ImplementationInfo ''mgr_x86'' ''x86_64'' ''Linux'' EXECUTABLE [] ''/mgr/DeviceManager'' []],
      selectedImplementation = None, componentType = ''devicemanager'',
      prf_properties = []\<rparr>"

definition example_gpp_placement :: ComponentPlacement where
  "example_gpp_placement =
     \<lparr>fileRefId = ''gpp_file'',
      instantiations = [\<lparr>inst_id = ''gpp_1'', usageName = ''GPP''\<rparr>],
      compositePartOfDeviceID = None\<rparr>"

definition example_lib_placement :: ComponentPlacement where
  "example_lib_placement =
     \<lparr>fileRefId = ''lib_file'',
      instantiations = [\<lparr>inst_id = ''child_1'', usageName = ''Child''\<rparr>],
      compositePartOfDeviceID = Some ''gpp_1''\<rparr>"

definition example_missing_placement :: ComponentPlacement where
  "example_missing_placement =
     \<lparr>fileRefId = ''missing_file'',
      instantiations = [\<lparr>inst_id = ''lost_1'', usageName = ''Lost''\<rparr>],
      compositePartOfDeviceID = None\<rparr>"

text \<open>
  The same node with two more placements: a device that has an implementation for
  another processor only, and a device whose x86_64 implementation depends on a softpkg
  that has no implementation for this host.
\<close>

definition example_node_sdr :: Sdr where
  "example_node_sdr =
     example_sdr\<lparr>LoadProfile :=
       (\<lambda>f. if f = ''arm_file'' then
               Inr \<lparr>instantiationIdentifier = [], isConfigurable = True,
                    nonNilConstructProperties = [], nonNilConfigureProperties = [],
                    implementations =
                      [ImplementationInfo ''radio_arm'' ''armv7l'' ''Linux'' EXECUTABLE []
                         ''/devices/Radio/cpp/Radio'' []],
                    selectedImplementation = None, componentType = ''device'',
                    prf_properties = []\<rparr>
             else if f = ''dep_file'' then
               Inr \<lparr>instantiationIdentifier = [], isConfigurable = True,
                    nonNilConstructProperties = [], nonNilConfigureProperties = [],
                    implementations =
                      [ImplementationInfo ''dsp_cpp'' ''x86_64'' ''Linux'' EXECUTABLE []
                         ''/devices/Dsp/cpp/Dsp''
                         [SoftpkgInfo ''libfast''
                            [ImplementationInfo ''fast_arm'' ''armv7l'' ''Linux''
                               SHARED_LIBRARY [] ''/deps/libfast/libfast.so'' []]]],
                    selectedImplementation = None, componentType = ''device'',
                    prf_properties = []\<rparr>
             else LoadProfile example_sdr f)\<rparr>"

definition example_arm_placement :: ComponentPlacement where
  "example_arm_placement =
     \<lparr>fileRefId = ''arm_file'',
      instantiations = [\<lparr>inst_id = ''radio_1'', usageName = ''Radio''\<rparr>],
      compositePartOfDeviceID = None\<rparr>"

definition example_dep_placement :: ComponentPlacement where
  "example_dep_placement =
     \<lparr>fileRefId = ''dep_file'',
      instantiations = [\<lparr>inst_id = ''dsp_1'', usageName = ''Dsp''\<rparr>],
      compositePartOfDeviceID = None\<rparr>"

text \<open>The manager's profile once \<^verbatim>\<open>setupImplementationForHost\<close> has matched it to the
  host.\<close>

definition example_matched_info :: ProgramProfile where
  "example_matched_info =
     example_devmgr_info
       \<lparr>selectedImplementation :=
          Some (ImplementationInfo ''mgr_x86'' ''x86_64'' ''Linux'' EXECUTABLE []
                  ''/mgr/DeviceManager'' []),
        prf_properties := host_props ''x86_64'' ''Linux''\<rparr>"

text \<open>The two deployments that planning makes of the example node.\<close>

definition example_gpp_deployment :: Deployment where
  "example_gpp_deployment =
     (example_gpp_placement,
      \<lparr>instantiationIdentifier = [], isConfigurable = True,
       nonNilConstructProperties = [], nonNilConfigureProperties = [],
       implementations =
         [ImplementationInfo ''gpp_cpp'' ''x86_64'' ''Linux'' EXECUTABLE []
            ''/devices/GPP/cpp/GPP'' []],
       selectedImplementation =
         Some (ImplementationInfo ''gpp_cpp'' ''x86_64'' ''Linux'' EXECUTABLE []
                 ''/devices/GPP/cpp/GPP'' []),
       componentType = ''executabledevice'',
       prf_properties = []\<rparr>)"

definition example_lib_deployment :: Deployment where
  "example_lib_deployment =
     (example_lib_placement,
      \<lparr>instantiationIdentifier = [], isConfigurable = True,
       nonNilConstructProperties = [], nonNilConfigureProperties = [],
       implementations =
         [ImplementationInfo ''lib_cpp'' ''x86_64'' ''Linux'' SHARED_LIBRARY []
            ''/devices/Child/cpp/libChild.so'' []],
       selectedImplementation =
         Some (ImplementationInfo ''lib_cpp'' ''x86_64'' ''Linux'' SHARED_LIBRARY []
                 ''/devices/Child/cpp/libChild.so'' []),
       componentType = ''device'',
       prf_properties = []\<rparr>)"

definition example_placements :: "ComponentPlacement list" where
  "example_placements =
     [example_lib_placement, example_missing_placement, example_gpp_placement]"

section \<open>Properties of the inbound operations\<close>

lemma exception_specification_state: "snd (exception_specification e s) = s"
  by (simp add: exception_specification_def)

lemma exception_specification_not_Returned: "fst (exception_specification e s) \<noteq> Returned"
  by (simp add: exception_specification_def)

lemma registerDevice_ignored_during_shutdown:
  "internalShutdown s \<Longrightarrow> registerDevice env (Some dev) s = (Returned, s)"
  by (simp add: registerDevice_def)

lemma is_std_or_CORBA: "is_std_exception e \<or> is_CORBA_exception e"
  by (simp add: is_CORBA_exception_def)


lemma registerDevice_forward_state:
  "registeredDevices (snd (registerDevice_forward env dev s)) = registeredDevices s"
  "devMgrContext (snd (registerDevice_forward env dev s)) = devMgrContext s"
  "pendingDevices (snd (registerDevice_forward env dev s)) = pendingDevices s"
  by (simp_all add: registerDevice_forward_def Let_def log_call_def is_CORBA_exception_def
      split: option.splits)

lemma increment_registeredDevices_cases:
  "(\<exists>e t. increment_registeredDevices dev s = (Raised e, t) \<and>
      registeredDevices t = registeredDevices s \<and> devMgrContext t = devMgrContext s \<and>
      adminState t = adminState s) \<or>
   (\<exists>node t. increment_registeredDevices dev s = (Returned, t) \<and>
      registeredDevices t = registeredDevices s @ [node] \<and> device node = Some dev \<and>
      dn_IOR node = dev_ior dev \<and> devMgrContext t = devMgrContext s \<and>
      adminState t = adminState s)"
  by (auto simp: increment_registeredDevices_def Let_def split: sum.splits option.splits prod.splits)

lemma registerDevice_bind_regs:
  "registeredDevices (snd (registerDevice_bind env dev lbl s)) = registeredDevices s \<or>
   (\<not> deviceIsRegistered s dev \<and>
    (\<exists>node. registeredDevices (snd (registerDevice_bind env dev lbl s)) =
       registeredDevices s @ [node] \<and> device node = Some dev \<and> dn_IOR node = dev_ior dev))"
proof (cases "\<not> deviceIsRegistered s dev \<and> \<not> (ns_unreachable env \<or> devMgrContext s lbl \<noteq> None)")
  case True
  let ?s1 = "(log_call (NS_bind lbl (dev_ior dev)) s)
               \<lparr>devMgrContext := (devMgrContext (log_call (NS_bind lbl (dev_ior dev)) s))
                  (lbl \<mapsto> dev_ior dev)\<rparr>"
  have r1: "registeredDevices ?s1 = registeredDevices s" by (simp add: log_call_def)
  from increment_registeredDevices_cases[of dev ?s1]
  show ?thesis
  proof (elim disjE exE conjE)
    fix e t
    assume i: "increment_registeredDevices dev ?s1 = (Raised e, t)"
      and r: "registeredDevices t = registeredDevices ?s1"
    from True i have "registerDevice_bind env dev lbl s = exception_specification e t"
      by (simp add: registerDevice_bind_def Let_def log_call_def)
    with r r1 show ?thesis by (simp add: exception_specification_state)
  next
    fix node t
    assume i: "increment_registeredDevices dev ?s1 = (Returned, t)"
      and r: "registeredDevices t = registeredDevices ?s1 @ [node]"
      and n: "device node = Some dev" "dn_IOR node = dev_ior dev"
    from True i have "registerDevice_bind env dev lbl s = registerDevice_forward env dev t"
      by (simp add: registerDevice_bind_def Let_def log_call_def)
    with r r1 n True show ?thesis by (simp add: registerDevice_forward_state)
  qed
next
  case False
  then have "registeredDevices (snd (registerDevice_bind env dev lbl s)) = registeredDevices s"
    by (auto simp: registerDevice_bind_def Let_def log_call_def)
  then show ?thesis by simp
qed

lemma log_call_fields:
  "registeredDevices (log_call c s) = registeredDevices s"
  "pendingDevices (log_call c s) = pendingDevices s"
  "registeredServices (log_call c s) = registeredServices s"
  "pendingServices (log_call c s) = pendingServices s"
  "adminState (log_call c s) = adminState s"
  "internalShutdown (log_call c s) = internalShutdown s"
  "devMgrContext (log_call c s) = devMgrContext s"
  "rootContext (log_call c s) = rootContext s"
  "deployed_comps (log_call c s) = deployed_comps s"
  "DEVICE_FORCE_QUIT_TIME (log_call c s) = DEVICE_FORCE_QUIT_TIME s"
  "calls (log_call c s) = calls s @ [c]"
  by (simp_all add: log_call_def)

lemma deviceIsRegistered_log_call:
  "deviceIsRegistered (log_call c s) dev = deviceIsRegistered s dev"
  by (simp add: deviceIsRegistered_def log_call_fields)

lemma registerDevice_configure_regs:
  "registeredDevices (snd (registerDevice_configure env dev lbl prof s)) = registeredDevices s \<or>
   (\<not> deviceIsRegistered s dev \<and>
    (\<exists>node. registeredDevices (snd (registerDevice_configure env dev lbl prof s)) =
       registeredDevices s @ [node] \<and> device node = Some dev \<and> dn_IOR node = dev_ior dev))"
  using registerDevice_bind_regs[of env dev lbl s]
    registerDevice_bind_regs[of env dev lbl
      "log_call (Dev_configure (dev_ior dev) (nonNilConfigureProperties prof)) s"]
  by (auto simp: registerDevice_configure_def Let_def log_call_fields deviceIsRegistered_log_call
      split: option.splits)

lemma registerDevice_initialize_regs:
  "registeredDevices (snd (registerDevice_initialize env dev lbl prof s)) = registeredDevices s \<or>
   (\<not> deviceIsRegistered s dev \<and>
    (\<exists>node. registeredDevices (snd (registerDevice_initialize env dev lbl prof s)) =
       registeredDevices s @ [node] \<and> device node = Some dev \<and> dn_IOR node = dev_ior dev))"
  using registerDevice_configure_regs[of env dev lbl prof
      "log_call (Dev_initialize (dev_ior dev)) s"]
  by (auto simp: registerDevice_initialize_def Let_def log_call_fields deviceIsRegistered_log_call
      split: option.splits)

lemma registerDevice_initializeProperties_regs:
  "registeredDevices (snd (registerDevice_initializeProperties env dev lbl prof s)) =
     registeredDevices s \<or>
   (\<not> deviceIsRegistered s dev \<and>
    (\<exists>node. registeredDevices (snd (registerDevice_initializeProperties env dev lbl prof s)) =
       registeredDevices s @ [node] \<and> device node = Some dev \<and> dn_IOR node = dev_ior dev))"
  using registerDevice_initialize_regs[of env dev lbl prof s]
    registerDevice_initialize_regs[of env dev lbl prof
      "log_call (Dev_initializeProperties (dev_ior dev) (nonNilConstructProperties prof)) s"]
  by (auto simp: registerDevice_initializeProperties_def Let_def log_call_fields
      deviceIsRegistered_log_call split: option.splits)

lemma registerDevice_regs:
  "registeredDevices (snd (registerDevice env (Some dev) s)) = registeredDevices s \<or>
   (\<not> internalShutdown s \<and> \<not> deviceIsRegistered s dev \<and>
    (\<exists>lbl ident node. dev_label dev = Inr lbl \<and> dev_identifier dev = Inr ident \<and>
       registeredDevices (snd (registerDevice env (Some dev) s)) = registeredDevices s @ [node] \<and>
       device node = Some dev \<and> dn_IOR node = dev_ior dev))"
proof (cases "internalShutdown s \<or> deviceIsRegistered s dev")
  case True
  then show ?thesis
    by (auto simp: registerDevice_def exception_specification_state split: sum.splits)
next
  case False
  show ?thesis
  proof (cases "dev_label dev")
    case (Inl e)
    with False show ?thesis by (simp add: registerDevice_def exception_specification_state)
  next
    case lbl: (Inr lbl)
    show ?thesis
    proof (cases "dev_identifier dev")
      case (Inl e)
      with False lbl show ?thesis by (simp add: registerDevice_def exception_specification_state)
    next
      case ident: (Inr ident)
      show ?thesis
      proof (cases "dev_softwareProfile dev")
        case (Inl e)
        with False lbl ident show ?thesis
          by (simp add: registerDevice_def exception_specification_state)
      next
        case spd: (Inr spd)
        show ?thesis
        proof (cases "findProfile s ident")
          case None
          with False lbl ident spd show ?thesis by (simp add: registerDevice_def)
        next
          case (Some prof)
          with False lbl ident spd have e: "registerDevice env (Some dev) s =
              registerDevice_initializeProperties env dev lbl prof s"
            by (simp add: registerDevice_def)
          from registerDevice_initializeProperties_regs[of env dev lbl prof s] False lbl ident
          show ?thesis unfolding e by auto
        qed
      qed
    qed
  qed
qed

lemma clean_registeredDevices_loop_empty:
  "registeredDevices s = [] \<Longrightarrow> clean_registeredDevices_loop env s = s"
  by (subst clean_registeredDevices_loop.simps) simp

lemma killPendingDevices_empty:
  "pendingDevices s = [] \<Longrightarrow> killPendingDevices env sig timeout s = s"
  by (simp add: killPendingDevices_def)

lemma shutdown_example: "shutdown example_env example_manager = example_shut_down"
proof -
  let ?s2 = "log_call Dom_unregisterDeviceManager
      (example_manager\<lparr>internalShutdown := True, adminState := DEVMGR_SHUTTING_DOWN\<rparr>)"
  have b: "registeredDevices ?s2 = []" "pendingDevices ?s2 = []"
    "registeredServices ?s2 = []" "pendingServices ?s2 = []"
    by (simp_all add: log_call_fields example_manager_def)
  have s3: "clean_registeredServices example_env ?s2 = ?s2"
    by (simp add: clean_registeredServices_def kill_services_def b Let_def)
  have s4: "clean_externalServices example_env ?s2 = ?s2"
    by (simp add: clean_externalServices_def b)
  have s5: "clean_registeredDevices example_env ?s2 = ?s2"
    by (simp add: clean_registeredDevices_def Let_def clean_registeredDevices_loop_empty
        killPendingDevices_empty b)
  have "shutdown example_env example_manager =
      (unbind_rootContext example_env (mgr_label ?s2) ?s2)\<lparr>adminState := DEVMGR_SHUTDOWN\<rparr>"
    by (simp add: shutdown_def Let_def s3 s4 s5) (simp add: example_manager_def)
  also have "\<dots> = example_shut_down"
    by (simp add: unbind_rootContext_def log_call_def Let_def example_env_def
        example_manager_def example_shut_down_def)
  finally show ?thesis .
qed




text \<open>
  C1, at the input where the code departs from it. \<^verbatim>\<open>registerDevice\<close> returns at once
  while the shutdown flag is set (\<open>registerDevice_ignored_during_shutdown\<close>), and
  \<^verbatim>\<open>shutdown()\<close> sets the flag before anything else
  (\<open>registerDevice_ignored_after_shutdown\<close>). \<^verbatim>\<open>registerService\<close> has no such check:
  called with a non-nil reference while the manager is shutting down, or after it has
  shut down, it rebinds the name in the naming directory and appends a record to the
  registered services.
\<close>

theorem registerService_serviced_during_shutdown:
  "adminState example_shutting_down = DEVMGR_SHUTTING_DOWN \<and>
   internalShutdown example_shutting_down \<and>
   registeredServices example_shutting_down = [] \<and>
   calls example_shutting_down = [] \<and>
   fst (registerService example_env (Some ''IOR:svc'') ''usage'' example_shutting_down) = Returned \<and>
   calls (snd (registerService example_env (Some ''IOR:svc'') ''usage'' example_shutting_down)) =
     [NS_rebind ''usage'' ''IOR:svc''] \<and>
   map sn_label
     (registeredServices
        (snd (registerService example_env (Some ''IOR:svc'') ''usage'' example_shutting_down))) =
     [''usage''] \<and>
   rootContext (snd (registerService example_env (Some ''IOR:svc'') ''usage'' example_shutting_down))
     ''usage'' = Some ''IOR:svc'' \<and>
   adminState (shutdown example_env example_manager) = DEVMGR_SHUTDOWN \<and>
   internalShutdown (shutdown example_env example_manager) \<and>
   registeredServices (shutdown example_env example_manager) = [] \<and>
   fst (registerService example_env (Some ''IOR:svc'') ''usage''
          (shutdown example_env example_manager)) = Returned \<and>
   calls (snd (registerService example_env (Some ''IOR:svc'') ''usage''
                 (shutdown example_env example_manager))) =
     calls (shutdown example_env example_manager) @ [NS_rebind ''usage'' ''IOR:svc''] \<and>
   map sn_label
     (registeredServices
        (snd (registerService example_env (Some ''IOR:svc'') ''usage''
                (shutdown example_env example_manager)))) = [''usage'']"
  unfolding shutdown_example
  by (simp add: registerService_def serviceIsRegistered_def increment_registeredServices_def
      log_call_def example_shutting_down_def example_shut_down_def example_manager_def
      example_env_def Let_def)




text \<open>
  C3. Each of \<^verbatim>\<open>registerDevice\<close>, \<^verbatim>\<open>registerService\<close>, \<^verbatim>\<open>unregisterDevice\<close> and
  \<^verbatim>\<open>unregisterService\<close> raises InvalidObjectReference on a nil reference and leaves
  the state as it was; \<^verbatim>\<open>unregisterDevice\<close> raises it too for a device that is not
  among the registered devices.
\<close>

theorem nil_reference_rejected:
  "registerDevice env None s = (Raised InvalidObjectReference, s) \<and>
   registerService env None name s = (Raised InvalidObjectReference, s) \<and>
   unregisterDevice env None s = (Raised InvalidObjectReference, s) \<and>
   unregisterService env None name s = (Raised InvalidObjectReference, s) \<and>
   (list_all (\<lambda>n. dn_IOR n \<noteq> dev_ior dev) (registeredDevices s) \<longrightarrow>
      unregisterDevice env (Some dev) s = (Raised InvalidObjectReference, s))"
proof (intro conjI impI)
  show "registerDevice env None s = (Raised InvalidObjectReference, s)"
    by (simp add: registerDevice_def)
  show "registerService env None name s = (Raised InvalidObjectReference, s)"
    by (simp add: registerService_def)
  show "unregisterDevice env None s = (Raised InvalidObjectReference, s)"
    by (simp add: unregisterDevice_def)
  show "unregisterService env None name s = (Raised InvalidObjectReference, s)"
    by (simp add: unregisterService_def)
next
  assume "list_all (\<lambda>n. dn_IOR n \<noteq> dev_ior dev) (registeredDevices s)"
  then have "erase_first (\<lambda>n. dn_IOR n = dev_ior dev) (registeredDevices s) = None"
    by (simp add: erase_first_None_iff list_all_iff)
  then show "unregisterDevice env (Some dev) s = (Raised InvalidObjectReference, s)"
    by (simp add: unregisterDevice_def decrement_registeredDevices_def split: sum.splits)
qed

theorem nil_reference_rejected_witness:
  "registeredDevices example_registered = [example_device_node] \<and>
   list_all (\<lambda>n. dn_IOR n \<noteq> dev_ior (example_device\<lparr>dev_ior := ''IOR:other''\<rparr>))
     (registeredDevices example_registered) \<and>
   unregisterDevice example_env (Some (example_device\<lparr>dev_ior := ''IOR:other''\<rparr>))
       example_registered =
     (Raised InvalidObjectReference, example_registered)"
proof -
  have r: "registeredDevices example_registered = [example_device_node]"
    by (simp add: example_registered_def example_manager_def)
  have h: "list_all (\<lambda>n. dn_IOR n \<noteq> dev_ior (example_device\<lparr>dev_ior := ''IOR:other''\<rparr>))
      (registeredDevices example_registered)"
    by (simp add: r example_device_node_def)
  with nil_reference_rejected[of example_env example_registered _
      "example_device\<lparr>dev_ior := ''IOR:other''\<rparr>"] r
  show ?thesis by simp
qed

text \<open>
  C4. A successful \<^verbatim>\<open>unregisterDevice\<close> or \<^verbatim>\<open>unregisterService\<close> removes the first
  record that matches (by stringified reference for devices, by label for services) from
  the registered bucket; the record is appended to the pending bucket when its pid is not
  zero, and is in no bucket otherwise.
\<close>

theorem unregister_moves_or_drops:
  "(unregisterDevice env (Some dev) s = (Returned, s') \<longrightarrow>
      (\<exists>pre node post.
         registeredDevices s = pre @ node # post \<and> dn_IOR node = dev_ior dev \<and>
         list_all (\<lambda>n. dn_IOR n \<noteq> dev_ior dev) pre \<and>
         registeredDevices s' = pre @ post \<and>
         pendingDevices s' =
           (if dn_pid node \<noteq> 0 then pendingDevices s @ [node] else pendingDevices s))) \<and>
   (unregisterService env (Some svc) name s = (Returned, s'') \<longrightarrow>
      (\<exists>pre node post.
         registeredServices s = pre @ node # post \<and> sn_label node = name \<and>
         list_all (\<lambda>n. sn_label n \<noteq> name) pre \<and>
         registeredServices s'' = pre @ post \<and>
         pendingServices s'' =
           (if sn_pid node \<noteq> 0 then pendingServices s @ [node] else pendingServices s)))"
proof (intro conjI impI)
  assume a: "unregisterDevice env (Some dev) s = (Returned, s')"
  then obtain node rest where
    e: "erase_first (\<lambda>n. dn_IOR n = dev_ior dev) (registeredDevices s) = Some (node, rest)"
    by (auto simp: unregisterDevice_def decrement_registeredDevices_def
        split: sum.splits option.splits if_splits prod.splits)
  from a e have r: "registeredDevices s' = rest"
    and p: "pendingDevices s' =
           (if dn_pid node \<noteq> 0 then pendingDevices s @ [node] else pendingDevices s)"
    by (auto simp: unregisterDevice_def decrement_registeredDevices_def Let_def
        local_unregisterDevice_def unbind_devMgrContext_def log_call_def
        split: sum.splits if_splits)
  from erase_first_SomeD[OF e] obtain pre post where
    "registeredDevices s = pre @ node # post" "dn_IOR node = dev_ior dev"
    "\<forall>x\<in>set pre. dn_IOR x \<noteq> dev_ior dev" "rest = pre @ post" by blast
  with r p show "\<exists>pre node post.
         registeredDevices s = pre @ node # post \<and> dn_IOR node = dev_ior dev \<and>
         list_all (\<lambda>n. dn_IOR n \<noteq> dev_ior dev) pre \<and>
         registeredDevices s' = pre @ post \<and>
         pendingDevices s' =
           (if dn_pid node \<noteq> 0 then pendingDevices s @ [node] else pendingDevices s)"
    unfolding list_all_iff by blast
next
  assume a: "unregisterService env (Some svc) name s = (Returned, s'')"
  then obtain node rest where
    e: "erase_first (\<lambda>n. sn_label n = name) (registeredServices s) = Some (node, rest)"
    by (auto simp: unregisterService_def decrement_registeredServices_def
        split: option.splits if_splits prod.splits)
  from a e have r: "registeredServices s'' = rest"
    and p: "pendingServices s'' =
           (if sn_pid node \<noteq> 0 then pendingServices s @ [node] else pendingServices s)"
    by (auto simp: unregisterService_def decrement_registeredServices_def Let_def
        local_unregisterService_def unbind_rootContext_def log_call_def
        split: if_splits)
  from erase_first_SomeD[OF e] obtain pre post where
    "registeredServices s = pre @ node # post" "sn_label node = name"
    "\<forall>x\<in>set pre. sn_label x \<noteq> name" "rest = pre @ post" by blast
  with r p show "\<exists>pre node post.
         registeredServices s = pre @ node # post \<and> sn_label node = name \<and>
         list_all (\<lambda>n. sn_label n \<noteq> name) pre \<and>
         registeredServices s'' = pre @ post \<and>
         pendingServices s'' =
           (if sn_pid node \<noteq> 0 then pendingServices s @ [node] else pendingServices s)"
    unfolding list_all_iff by blast
qed

theorem unregister_moves_or_drops_witness:
  "fst (unregisterDevice example_env (Some example_device) example_registered) = Returned \<and>
   fst (unregisterService example_env (Some ''IOR:svc'') ''usage'' example_registered) = Returned \<and>
   registeredDevices (snd (unregisterDevice example_env (Some example_device) example_registered)) = [] \<and>
   pendingDevices (snd (unregisterDevice example_env (Some example_device) example_registered)) =
     [example_device_node] \<and>
   registeredServices (snd (unregisterService example_env (Some ''IOR:svc'') ''usage'' example_registered)) = [] \<and>
   pendingServices (snd (unregisterService example_env (Some ''IOR:svc'') ''usage'' example_registered)) = []"
proof -
  let ?d = "unregisterDevice example_env (Some example_device) example_registered"
  let ?s = "unregisterService example_env (Some ''IOR:svc'') ''usage'' example_registered"
  have fd: "fst ?d = Returned"
    by (simp add: unregisterDevice_def decrement_registeredDevices_def example_device_def
        example_registered_def example_manager_def example_device_node_def Let_def)
  have fs: "fst ?s = Returned"
    by (simp add: unregisterService_def decrement_registeredServices_def
        example_registered_def example_manager_def example_service_node_def Let_def)
  have hd: "?d = (Returned, snd ?d)" using fd by (simp add: prod_eq_iff)
  have hs: "?s = (Returned, snd ?s)" using fs by (simp add: prod_eq_iff)
  have regs: "registeredDevices example_registered = [example_device_node]"
    "registeredServices example_registered = [example_service_node]"
    "pendingDevices example_registered = []" "pendingServices example_registered = []"
    by (simp_all add: example_registered_def example_manager_def)
  from unregister_moves_or_drops[of example_env example_device example_registered "snd ?d"
      "''IOR:svc''" "''usage''" "snd ?s"] hd hs
  obtain pre node post spre snode spost where
    d: "registeredDevices example_registered = pre @ node # post"
       "registeredDevices (snd ?d) = pre @ post"
       "pendingDevices (snd ?d) =
           (if dn_pid node \<noteq> 0 then pendingDevices example_registered @ [node]
            else pendingDevices example_registered)"
    and s: "registeredServices example_registered = spre @ snode # spost"
       "registeredServices (snd ?s) = spre @ spost"
       "pendingServices (snd ?s) =
           (if sn_pid snode \<noteq> 0 then pendingServices example_registered @ [snode]
            else pendingServices example_registered)"
    by blast
  from d(1) regs have "pre = []" "node = example_device_node" "post = []"
    by (simp_all add: append_eq_Cons_conv Cons_eq_append_conv)
  moreover from s(1) regs have "spre = []" "snode = example_service_node" "spost = []"
    by (simp_all add: append_eq_Cons_conv Cons_eq_append_conv)
  ultimately show ?thesis using fd fs d s regs
    by (simp add: example_device_node_def example_service_node_def)
qed

text \<open>
  C7 (as amended). A registration of a child that is registered already changes nothing,
  so the registered bucket keeps exactly one entry for the child. \<^verbatim>\<open>registerService\<close>
  for a name that a registered service bears returns without raising. \<^verbatim>\<open>registerDevice\<close>
  for a device whose reference is equivalent to a registered one returns without raising
  when the manager is shutting down or the device answers \<^verbatim>\<open>label()\<close> and
  \<^verbatim>\<open>identifier()\<close>, which the source reads before it looks at the registered devices;
  when one of the two reads fails, the call does not return, and a CORBA system exception
  of the read is raised to the caller.
\<close>

theorem duplicate_registration_idempotent:
  "(deviceIsRegistered s dev \<longrightarrow>
      snd (registerDevice env (Some dev) s) = s \<and>
      (internalShutdown s \<or> (\<exists>lbl ident. dev_label dev = Inr lbl \<and> dev_identifier dev = Inr ident) \<longrightarrow>
         fst (registerDevice env (Some dev) s) = Returned) \<and>
      (\<not> internalShutdown s \<and> (isl (dev_label dev) \<or> isl (dev_identifier dev)) \<longrightarrow>
         fst (registerDevice env (Some dev) s) \<noteq> Returned) \<and>
      (\<not> internalShutdown s \<and>
       (dev_label dev = Inl SystemException \<or>
        (\<exists>lbl. dev_label dev = Inr lbl) \<and> dev_identifier dev = Inl SystemException) \<longrightarrow>
         fst (registerDevice env (Some dev) s) = Raised SystemException)) \<and>
   (serviceIsRegistered s name \<longrightarrow> registerService env (Some svc) name s = (Returned, s)) \<and>
   (\<not> deviceIsRegistered s dev \<and>
    deviceIsRegistered (snd (registerDevice env (Some dev) s)) dev \<longrightarrow>
      registerDevice env' (Some dev) (snd (registerDevice env (Some dev) s)) =
        (Returned, snd (registerDevice env (Some dev) s)) \<and>
      (dev_ior dev' = dev_ior dev \<longrightarrow>
         snd (registerDevice env' (Some dev') (snd (registerDevice env (Some dev) s))) =
           snd (registerDevice env (Some dev) s)) \<and>
      length (filter (\<lambda>n. is_equivalent (device n) dev)
                (registeredDevices (snd (registerDevice env (Some dev) s)))) = 1) \<and>
   (\<not> serviceIsRegistered s name \<and>
    serviceIsRegistered (snd (registerService env (Some svc) name s)) name \<longrightarrow>
      registerService env' (Some svc') name (snd (registerService env (Some svc) name s)) =
        (Returned, snd (registerService env (Some svc) name s)) \<and>
      length (filter (\<lambda>n. sn_label n = name)
                (registeredServices (snd (registerService env (Some svc) name s)))) = 1)"
proof (intro conjI impI)
  assume r: "deviceIsRegistered s dev"
  then show "snd (registerDevice env (Some dev) s) = s"
    by (simp add: registerDevice_def exception_specification_state split: sum.splits)
  {
    assume "internalShutdown s \<or> (\<exists>lbl ident. dev_label dev = Inr lbl \<and> dev_identifier dev = Inr ident)"
    with r show "fst (registerDevice env (Some dev) s) = Returned"
      by (auto simp: registerDevice_def)
  }
  {
    assume "\<not> internalShutdown s \<and> (isl (dev_label dev) \<or> isl (dev_identifier dev))"
    with r show "fst (registerDevice env (Some dev) s) \<noteq> Returned"
      by (auto simp: registerDevice_def exception_specification_not_Returned isl_def
          split: sum.splits)
  }
  {
    assume "\<not> internalShutdown s \<and>
       (dev_label dev = Inl SystemException \<or>
        (\<exists>lbl. dev_label dev = Inr lbl) \<and> dev_identifier dev = Inl SystemException)"
    with r show "fst (registerDevice env (Some dev) s) = Raised SystemException"
      by (auto simp: registerDevice_def exception_specification_def)
  }
next
  assume "serviceIsRegistered s name"
  then show "registerService env (Some svc) name s = (Returned, s)"
    by (simp add: registerService_def)
next
  assume a: "\<not> deviceIsRegistered s dev \<and>
    deviceIsRegistered (snd (registerDevice env (Some dev) s)) dev"
  let ?s1 = "snd (registerDevice env (Some dev) s)"
  from a have "registeredDevices ?s1 \<noteq> registeredDevices s"
    by (auto simp: deviceIsRegistered_def)
  with registerDevice_regs[of env dev s] obtain lbl ident node where
    r: "dev_label dev = Inr lbl" "dev_identifier dev = Inr ident"
       "registeredDevices ?s1 = registeredDevices s @ [node]" "device node = Some dev"
    by blast
  have noop: "\<And>t. deviceIsRegistered t dev \<Longrightarrow>
      registerDevice env' (Some dev) t = (Returned, t)"
    using r by (simp add: registerDevice_def)
  from a show "registerDevice env' (Some dev) ?s1 = (Returned, ?s1)"
    by (simp add: noop)
  have same: "\<And>t. deviceIsRegistered t dev' \<Longrightarrow> snd (registerDevice env' (Some dev') t) = t"
    by (simp add: registerDevice_def exception_specification_state split: sum.splits)
  {
    assume i: "dev_ior dev' = dev_ior dev"
    have "is_equivalent p dev' = is_equivalent p dev" for p
      using i by (simp add: is_equivalent_def split: option.splits)
    with a have "deviceIsRegistered ?s1 dev'"
      by (simp add: deviceIsRegistered_def)
    then show "snd (registerDevice env' (Some dev') ?s1) = ?s1" by (rule same)
  }
  from a have "filter (\<lambda>n. is_equivalent (device n) dev) (registeredDevices s) = []"
    by (simp add: deviceIsRegistered_def list_ex_iff filter_empty_conv)
  with r show "length (filter (\<lambda>n. is_equivalent (device n) dev) (registeredDevices ?s1)) = 1"
    by (simp add: is_equivalent_def)
next
  assume a: "\<not> serviceIsRegistered s name \<and>
    serviceIsRegistered (snd (registerService env (Some svc) name s)) name"
  let ?s1 = "snd (registerService env (Some svc) name s)"
  have noop: "\<And>t. serviceIsRegistered t name \<Longrightarrow>
      registerService env' (Some svc') name t = (Returned, t)"
    by (simp add: registerService_def)
  from a show "registerService env' (Some svc') name ?s1 = (Returned, ?s1)"
    by (simp add: noop)
  from a have none: "filter (\<lambda>n. sn_label n = name) (registeredServices s) = []"
    by (simp add: serviceIsRegistered_def list_ex_iff filter_empty_conv)
  from a have "registeredServices ?s1 \<noteq> registeredServices s"
    by (auto simp: serviceIsRegistered_def)
  then obtain node where "registeredServices ?s1 = registeredServices s @ [node]"
    "sn_label node = name"
    using a
    by (auto simp: registerService_def increment_registeredServices_def Let_def log_call_fields
        unbind_rootContext_def exception_specification_state
        split: if_splits option.splits prod.splits)
  with none show "length (filter (\<lambda>n. sn_label n = name) (registeredServices ?s1)) = 1"
    by simp
qed

theorem duplicate_registration_idempotent_witness:
  "deviceIsRegistered (snd (registerDevice example_env (Some example_device) example_manager))
     example_device \<and>
   registerDevice example_env (Some example_device)
       (snd (registerDevice example_env (Some example_device) example_manager)) =
     (Returned, snd (registerDevice example_env (Some example_device) example_manager)) \<and>
   snd (registerDevice example_env (Some example_silent_device)
          (snd (registerDevice example_env (Some example_device) example_manager))) =
     snd (registerDevice example_env (Some example_device) example_manager) \<and>
   length (registeredDevices (snd (registerDevice example_env (Some example_device) example_manager))) = 1 \<and>
   serviceIsRegistered (snd (registerService example_env (Some ''IOR:svc'') ''usage'' example_manager))
     ''usage'' \<and>
   registerService example_env (Some ''IOR:other'') ''usage''
       (snd (registerService example_env (Some ''IOR:svc'') ''usage'' example_manager)) =
     (Returned, snd (registerService example_env (Some ''IOR:svc'') ''usage'' example_manager)) \<and>
   length (registeredServices (snd (registerService example_env (Some ''IOR:svc'') ''usage'' example_manager))) = 1 \<and>
   registerDevice example_env (Some example_device) example_registered = (Returned, example_registered) \<and>
   registerDevice example_env (Some example_silent_device) example_registered =
     (Raised SystemException, example_registered) \<and>
   registerService example_env (Some ''IOR:svc'') ''usage'' example_registered =
     (Returned, example_registered)"
proof -
  let ?d1 = "snd (registerDevice example_env (Some example_device) example_manager)"
  let ?s1 = "snd (registerService example_env (Some ''IOR:svc'') ''usage'' example_manager)"
  have d0: "\<not> deviceIsRegistered example_manager example_device"
    by (simp add: deviceIsRegistered_def example_manager_def)
  have regs_d: "map device (registeredDevices ?d1) = [Some example_device]"
    by (simp add: registerDevice_def registerDevice_initializeProperties_def
        registerDevice_initialize_def registerDevice_configure_def registerDevice_bind_def
        registerDevice_forward_def increment_registeredDevices_def findProfile_def
        deviceIsRegistered_def log_call_def Let_def
        example_manager_def example_device_def example_profile_def example_env_def)
  then have d1: "deviceIsRegistered ?d1 example_device"
    by (auto simp: deviceIsRegistered_def list_ex_iff is_equivalent_def map_eq_Cons_conv)
  have s0: "\<not> serviceIsRegistered example_manager ''usage''"
    by (simp add: serviceIsRegistered_def example_manager_def)
  have regs_s: "map sn_label (registeredServices ?s1) = [''usage'']"
    by (simp add: registerService_def serviceIsRegistered_def increment_registeredServices_def
        log_call_def Let_def example_manager_def example_env_def)
  then have s1: "serviceIsRegistered ?s1 ''usage''"
    by (auto simp: serviceIsRegistered_def list_ex_iff map_eq_Cons_conv)
  have r: "deviceIsRegistered example_registered example_device"
    "dev_label example_device = Inr ''GPP''" "dev_identifier example_device = Inr ''gpp_1''"
    "\<not> internalShutdown example_registered"
    by (simp_all add: deviceIsRegistered_def is_equivalent_def example_registered_def
        example_manager_def example_device_node_def example_device_def)
  have q: "deviceIsRegistered example_registered example_silent_device"
    "dev_label example_silent_device = Inl SystemException"
    "dev_ior example_silent_device = dev_ior example_device"
    by (simp_all add: deviceIsRegistered_def is_equivalent_def example_registered_def
        example_manager_def example_device_node_def example_device_def example_silent_device_def)
  have rs: "serviceIsRegistered example_registered ''usage''"
    by (simp add: serviceIsRegistered_def example_registered_def example_manager_def
        example_service_node_def)
  have ld: "length (registeredDevices ?d1) = 1" using regs_d
    by (metis length_map length_Cons list.size(3) One_nat_def)
  have ls: "length (registeredServices ?s1) = 1" using regs_s
    by (metis length_map length_Cons list.size(3) One_nat_def)
  from duplicate_registration_idempotent[of example_manager example_device
      example_env "''usage''" "''IOR:svc''" example_env example_silent_device "''IOR:other''"]
    d0 d1 s0 s1 q(3)
  have a: "registerDevice example_env (Some example_device) ?d1 = (Returned, ?d1)"
    "snd (registerDevice example_env (Some example_silent_device) ?d1) = ?d1"
    "registerService example_env (Some ''IOR:other'') ''usage'' ?s1 = (Returned, ?s1)"
    by simp_all
  from duplicate_registration_idempotent[of example_registered example_device
      example_env "''usage''" "''IOR:svc''"] r rs
  have b: "registerDevice example_env (Some example_device) example_registered =
      (Returned, example_registered)"
    "registerService example_env (Some ''IOR:svc'') ''usage'' example_registered =
      (Returned, example_registered)"
    by (simp_all add: prod_eq_iff)
  from duplicate_registration_idempotent[of example_registered example_silent_device
      example_env] q r(4)
  have c: "registerDevice example_env (Some example_silent_device) example_registered =
      (Raised SystemException, example_registered)"
    by (simp add: prod_eq_iff)
  from a b c d1 s1 ld ls show ?thesis by simp
qed

text \<open>
  C7 as stated fails for devices: the device is registered, its label cannot be read, and
  \<^verbatim>\<open>registerDevice\<close> raises the system exception of the read instead of returning.
\<close>

theorem silent_device_counterexample:
  "deviceIsRegistered example_registered example_silent_device \<and>
   \<not> internalShutdown example_registered \<and>
   fst (registerDevice example_env (Some example_silent_device) example_registered) =
     Raised SystemException"
  by (simp add: registerDevice_def deviceIsRegistered_def is_equivalent_def
      exception_specification_def example_registered_def example_manager_def
      example_device_node_def example_device_def example_silent_device_def)




section \<open>Properties of the snapshots\<close>

text \<open>
  C10. \<^verbatim>\<open>registeredDevices()\<close> and \<^verbatim>\<open>registeredServices()\<close> never raise: when a step
  of building the snapshot raises, the answer is the empty sequence; otherwise it has one
  entry for each record in the registered bucket, in the bucket's order.
\<close>

theorem snapshots_never_raise:
  "(\<exists>r. registeredDevices_attr fails_at s = Inr r) \<and>
   (\<exists>r. registeredServices_attr fails_at s = Inr r) \<and>
   (registeredDevices_try fails_at s = Inl e \<longrightarrow> registeredDevices_attr fails_at s = Inr []) \<and>
   (registeredServices_try fails_at s = Inl e \<longrightarrow> registeredServices_attr fails_at s = Inr []) \<and>
   (registeredDevices_try fails_at s = Inr ds \<longrightarrow>
      registeredDevices_attr fails_at s = Inr (map device (registeredDevices s)) \<and>
      length ds = length (registeredDevices s)) \<and>
   (registeredServices_try fails_at s = Inr ss \<longrightarrow>
      registeredServices_attr fails_at s =
        Inr (map (\<lambda>n. (service n, sn_label n)) (registeredServices s)) \<and>
      length ss = length (registeredServices s))"
  by (auto simp: registeredDevices_attr_def registeredServices_attr_def
      registeredDevices_try_def registeredServices_try_def split: option.splits sum.splits if_splits)

theorem snapshots_never_raise_witness:
  "registeredDevices_try (Some 1) example_registered = Inl StdException \<and>
   registeredDevices_attr (Some 1) example_registered = Inr [] \<and>
   registeredServices_try (Some 2) example_registered = Inl StdException \<and>
   registeredServices_attr (Some 2) example_registered = Inr [] \<and>
   registeredDevices_try None example_registered = Inr [Some example_device] \<and>
   registeredDevices_attr None example_registered = Inr [Some example_device] \<and>
   registeredServices_try None example_registered = Inr [(Some ''IOR:svc'', ''usage'')] \<and>
   registeredServices_attr None example_registered = Inr [(Some ''IOR:svc'', ''usage'')]"
proof -
  have t: "registeredDevices_try (Some 1) example_registered = Inl StdException"
    "registeredServices_try (Some 2) example_registered = Inl StdException"
    "registeredDevices_try None example_registered = Inr [Some example_device]"
    "registeredServices_try None example_registered = Inr [(Some ''IOR:svc'', ''usage'')]"
    by (simp_all add: registeredDevices_try_def registeredServices_try_def example_registered_def
        example_manager_def example_device_node_def example_service_node_def)
  have m: "map device (registeredDevices example_registered) = [Some example_device]"
    "map (\<lambda>n. (service n, sn_label n)) (registeredServices example_registered) =
       [(Some ''IOR:svc'', ''usage'')]"
    by (simp_all add: example_registered_def example_manager_def example_device_node_def
        example_service_node_def)
  from snapshots_never_raise[of "Some 1" example_registered StdException]
    snapshots_never_raise[of "Some 2" example_registered StdException]
    snapshots_never_raise[of None example_registered _ "[Some example_device]"
      "[(Some ''IOR:svc'', ''usage'')]"] t m
  show ?thesis by simp
qed

section \<open>Properties of the teardown\<close>

lemma teardown_log_call:
  "teardown_calls (log_call c s) = teardown_calls s @ (if is_teardown_call c then [c] else [])"
  by (simp add: teardown_calls_def log_call_def)

lemma teardown_upd [simp]:
  "teardown_calls (s\<lparr>registeredDevices := a\<rparr>) = teardown_calls s"
  "teardown_calls (s\<lparr>pendingDevices := b\<rparr>) = teardown_calls s"
  "teardown_calls (s\<lparr>registeredServices := c\<rparr>) = teardown_calls s"
  "teardown_calls (s\<lparr>pendingServices := d\<rparr>) = teardown_calls s"
  "teardown_calls (s\<lparr>devMgrContext := e\<rparr>) = teardown_calls s"
  "teardown_calls (s\<lparr>rootContext := f\<rparr>) = teardown_calls s"
  by (simp_all add: teardown_calls_def)

lemma local_unregisterDevice_fields:
  "registeredDevices (local_unregisterDevice env i l s) = registeredDevices s"
  "pendingDevices (local_unregisterDevice env i l s) = pendingDevices s"
  "registeredServices (local_unregisterDevice env i l s) = registeredServices s"
  "pendingServices (local_unregisterDevice env i l s) = pendingServices s"
  "adminState (local_unregisterDevice env i l s) = adminState s"
  "internalShutdown (local_unregisterDevice env i l s) = internalShutdown s"
  "DEVICE_FORCE_QUIT_TIME (local_unregisterDevice env i l s) = DEVICE_FORCE_QUIT_TIME s"
  "teardown_calls (local_unregisterDevice env i l s) = teardown_calls s"
  by (simp_all add: local_unregisterDevice_def unbind_devMgrContext_def Let_def
      log_call_fields teardown_log_call is_teardown_call_def)

lemma local_unregisterService_fields:
  "registeredDevices (local_unregisterService env i l s) = registeredDevices s"
  "pendingDevices (local_unregisterService env i l s) = pendingDevices s"
  "registeredServices (local_unregisterService env i l s) = registeredServices s"
  "pendingServices (local_unregisterService env i l s) = pendingServices s"
  "adminState (local_unregisterService env i l s) = adminState s"
  "internalShutdown (local_unregisterService env i l s) = internalShutdown s"
  "DEVICE_FORCE_QUIT_TIME (local_unregisterService env i l s) = DEVICE_FORCE_QUIT_TIME s"
  "teardown_calls (local_unregisterService env i l s) = teardown_calls s"
  by (simp_all add: local_unregisterService_def unbind_rootContext_def Let_def
      log_call_fields teardown_log_call is_teardown_call_def)

lemma childExited_fields:
  "pendingDevices (childExited env p s) = reap_pending p (pendingDevices s)"
  "adminState (childExited env p s) = adminState s"
  "internalShutdown (childExited env p s) = internalShutdown s"
  "DEVICE_FORCE_QUIT_TIME (childExited env p s) = DEVICE_FORCE_QUIT_TIME s"
  "teardown_calls (childExited env p s) = teardown_calls s"
  by (auto simp: childExited_def getDeviceNode_def reap_pending_def Let_def
      local_unregisterDevice_fields local_unregisterService_fields
      split: option.splits prod.splits)



lemma foldl_childExited_fields:
  "adminState (foldl (\<lambda>t p. childExited env p t) s ps) = adminState s"
  "internalShutdown (foldl (\<lambda>t p. childExited env p t) s ps) = internalShutdown s"
  "DEVICE_FORCE_QUIT_TIME (foldl (\<lambda>t p. childExited env p t) s ps) = DEVICE_FORCE_QUIT_TIME s"
  "teardown_calls (foldl (\<lambda>t p. childExited env p t) s ps) = teardown_calls s"
  by (induction ps arbitrary: s) (simp_all add: childExited_fields)




lemma foldl_kill_fields:
  "pendingDevices (foldl (\<lambda>t n. log_call (Kill (dn_pid n) sig) t) s ns) = pendingDevices s"
  "registeredDevices (foldl (\<lambda>t n. log_call (Kill (dn_pid n) sig) t) s ns) = registeredDevices s"
  "adminState (foldl (\<lambda>t n. log_call (Kill (dn_pid n) sig) t) s ns) = adminState s"
  "internalShutdown (foldl (\<lambda>t n. log_call (Kill (dn_pid n) sig) t) s ns) = internalShutdown s"
  "DEVICE_FORCE_QUIT_TIME (foldl (\<lambda>t n. log_call (Kill (dn_pid n) sig) t) s ns) =
     DEVICE_FORCE_QUIT_TIME s"
  "teardown_calls (foldl (\<lambda>t n. log_call (Kill (dn_pid n) sig) t) s ns) =
     teardown_calls s @ kills sig ns"
  by (induction ns arbitrary: s)
     (simp_all add: log_call_fields teardown_log_call is_teardown_call_def kills_def)



lemma killPendingDevices_fields:
  "adminState (killPendingDevices env sig timeout s) = adminState s"
  "internalShutdown (killPendingDevices env sig timeout s) = internalShutdown s"
  "DEVICE_FORCE_QUIT_TIME (killPendingDevices env sig timeout s) = DEVICE_FORCE_QUIT_TIME s"
  by (simp_all add: killPendingDevices_def Let_def foldl_kill_fields reap_during_wait_def
      foldl_childExited_fields log_call_fields)


text \<open>Unregistrations while a release is in flight only drain the registered devices.\<close>

lemma drained_refl: "drained A s s"
  by (simp add: drained_def list_all_iff)

lemma drained_trans:
  assumes "drained A s t" "drained A t u"
  shows "drained A s u"
proof -
  from assms(1) obtain Y1 where y1: "pendingDevices t = pendingDevices s @ Y1"
    "mset Y1 + mset (filter (\<lambda>n. dn_pid n \<noteq> 0) (registeredDevices t)) =
       mset (filter (\<lambda>n. dn_pid n \<noteq> 0) (registeredDevices s))"
    by (auto simp: drained_def)
  from assms(2) obtain Y2 where y2: "pendingDevices u = pendingDevices t @ Y2"
    "mset Y2 + mset (filter (\<lambda>n. dn_pid n \<noteq> 0) (registeredDevices u)) =
       mset (filter (\<lambda>n. dn_pid n \<noteq> 0) (registeredDevices t))"
    by (auto simp: drained_def)
  have p: "pendingDevices u = pendingDevices s @ (Y1 @ Y2)" using y1 y2 by simp
  have m: "mset (Y1 @ Y2) + mset (filter (\<lambda>n. dn_pid n \<noteq> 0) (registeredDevices u)) =
       mset (filter (\<lambda>n. dn_pid n \<noteq> 0) (registeredDevices s))"
    using y1(2) y2(2) by (simp add: ac_simps)
  have sub: "subseq (registeredDevices u) (registeredDevices s)"
    using assms by (auto simp: drained_def intro: subseq_order.trans)
  have cov: "list_all (\<lambda>n. n \<in> set (registeredDevices u) \<or> dn_IOR n \<in> A) (registeredDevices s)"
    using assms by (auto simp: drained_def list_all_iff)
  have rest: "teardown_calls u = teardown_calls s"
    "DEVICE_FORCE_QUIT_TIME u = DEVICE_FORCE_QUIT_TIME s"
    "internalShutdown u = internalShutdown s"
    using assms by (simp_all add: drained_def)
  show ?thesis
    unfolding drained_def using p m sub cov rest by blast
qed

lemma drained_mono: "A \<subseteq> B \<Longrightarrow> drained A s t \<Longrightarrow> drained B s t"
  by (auto simp: drained_def list_all_iff)

lemma unregisterDevice_drained:
  "drained {dev_ior d} s (snd (unregisterDevice env (Some d) s))"
proof (cases "erase_first (\<lambda>n. dn_IOR n = dev_ior d) (registeredDevices s)")
  case None
  then have "snd (unregisterDevice env (Some d) s) = s"
    by (simp add: unregisterDevice_def decrement_registeredDevices_def split: sum.splits)
  then show ?thesis by (simp add: drained_refl)
next
  case found: (Some a)
  obtain node rest where a: "a = (node, rest)" by (cases a)
  from erase_first_SomeD[OF found[unfolded a]] obtain pre post where
    sp: "registeredDevices s = pre @ node # post" "dn_IOR node = dev_ior d" "rest = pre @ post"
    by blast
  show ?thesis
  proof (cases "isl (dev_identifier d) \<or> isl (dev_label d)")
    case True
    then have "snd (unregisterDevice env (Some d) s) = s"
      by (auto simp: unregisterDevice_def isl_def split: sum.splits)
    then show ?thesis by (simp add: drained_refl)
  next
    case False
    let ?t = "snd (unregisterDevice env (Some d) s)"
    from False found a have
      r: "registeredDevices ?t = rest"
      and p: "pendingDevices ?t = pendingDevices s @ (if dn_pid node \<noteq> 0 then [node] else [])"
      and c: "teardown_calls ?t = teardown_calls s"
      and q: "DEVICE_FORCE_QUIT_TIME ?t = DEVICE_FORCE_QUIT_TIME s"
      and f: "internalShutdown ?t = internalShutdown s"
      by (auto simp: unregisterDevice_def decrement_registeredDevices_def Let_def
          local_unregisterDevice_fields isl_def split: sum.splits)
    have sub: "subseq rest (registeredDevices s)"
      unfolding sp by (intro list_emb_append_mono subseq_order.refl list_emb_Cons)
    have m: "mset (if dn_pid node \<noteq> 0 then [node] else []) +
        mset (filter (\<lambda>n. dn_pid n \<noteq> 0) rest) =
        mset (filter (\<lambda>n. dn_pid n \<noteq> 0) (registeredDevices s))"
      unfolding sp by simp
    have cov: "list_all (\<lambda>n. n \<in> set rest \<or> dn_IOR n \<in> {dev_ior d}) (registeredDevices s)"
      using sp by (auto simp: list_all_iff)
    from r p c q f sub m cov show ?thesis unfolding drained_def by auto
  qed
qed

lemma foldl_unregisterDevice_drained:
  "drained (dev_ior ` set ds) s (foldl (\<lambda>t d. snd (unregisterDevice env (Some d) t)) s ds)"
proof (induction ds arbitrary: s)
  case Nil
  show ?case by (simp add: drained_refl)
next
  case (Cons d ds)
  let ?s1 = "snd (unregisterDevice env (Some d) s)"
  have a: "drained (dev_ior ` set (d # ds)) s ?s1"
    by (rule drained_mono[OF _ unregisterDevice_drained]) simp
  have b: "drained (dev_ior ` set (d # ds)) ?s1
      (foldl (\<lambda>t d. snd (unregisterDevice env (Some d) t)) ?s1 ds)"
    by (rule drained_mono[OF _ Cons.IH]) auto
  from drained_trans[OF a b] show ?case by simp
qed






















text \<open>\<^verbatim>\<open>shutdown()\<close> sets the flag and nothing it calls clears it, so a device that
  registers after a shutdown request is ignored.\<close>

lemma unregisterDevice_flag:
  "internalShutdown (snd (unregisterDevice env p s)) = internalShutdown s"
  by (auto simp: unregisterDevice_def decrement_registeredDevices_def Let_def
      local_unregisterDevice_fields split: option.splits sum.splits prod.splits)

lemma releaseObject_call_flag:
  "internalShutdown (releaseObject_call env n s) = internalShutdown s"
proof (cases "device n")
  case None
  then show ?thesis by (simp add: releaseObject_call_def)
next
  case (Some d)
  from foldl_unregisterDevice_drained[of "during_release env (dev_ior d)"
      "log_call (Dev_releaseObject (dev_ior d) 3000) s" env]
  show ?thesis using Some by (simp add: releaseObject_call_def drained_def log_call_fields)
qed

lemma release_front_flag:
  "internalShutdown (release_front env n s) = internalShutdown s"
  by (simp add: release_front_def Let_def releaseObject_call_flag)

lemma clean_registeredDevices_loop_flag:
  "internalShutdown (clean_registeredDevices_loop env s) = internalShutdown s"
proof (induction env s rule: clean_registeredDevices_loop.induct)
  case (1 env s)
  show ?case
  proof (cases "registeredDevices s")
    case Nil
    then show ?thesis by (simp add: clean_registeredDevices_loop_empty)
  next
    case (Cons n rest)
    then have "clean_registeredDevices_loop env s =
        clean_registeredDevices_loop env (release_front env n s)"
      by (subst clean_registeredDevices_loop.simps) simp
    with "1.IH"[OF Cons] show ?thesis by (simp add: release_front_flag)
  qed
qed

lemma clean_registeredDevices_flag:
  "internalShutdown (clean_registeredDevices env s) = internalShutdown s"
  by (simp add: clean_registeredDevices_def Let_def killPendingDevices_fields
      clean_registeredDevices_loop_flag)

lemma kill_services_flag:
  "internalShutdown (kill_services sig ns s) = internalShutdown s"
  unfolding kill_services_def
  by (induction ns arbitrary: s) (simp_all add: log_call_fields)

lemma clean_registeredServices_flag:
  "internalShutdown (clean_registeredServices env s) = internalShutdown s"
  by (simp add: clean_registeredServices_def Let_def kill_services_flag reap_during_wait_def
      foldl_childExited_fields log_call_fields)

lemma clean_externalServices_flag:
  "internalShutdown (clean_externalServices env s) = internalShutdown s"
  by (simp add: clean_externalServices_def local_unregisterService_fields split: option.splits)

lemma shutdown_sets_flag: "internalShutdown (shutdown env s)"
  by (simp add: shutdown_def Let_def unbind_rootContext_def log_call_fields
      clean_registeredDevices_flag clean_externalServices_flag clean_registeredServices_flag)

lemma registerDevice_ignored_after_shutdown:
  "registerDevice env' (Some dev) (shutdown env s) = (Returned, shutdown env s)"
  by (rule registerDevice_ignored_during_shutdown) (rule shutdown_sets_flag)

text \<open>
  Well-formedness of the registered devices is kept by the operations that change them:
  \<^verbatim>\<open>registerDevice\<close> appends only a record that holds the registering reference and its
  stringified form, and only when no registered record is equivalent to it;
  \<^verbatim>\<open>unregisterDevice\<close> only erases.
\<close>

lemma registerDevice_appends:
  "registeredDevices (snd (registerDevice env (Some dev) s)) = registeredDevices s \<or>
   (\<not> deviceIsRegistered s dev \<and>
    (\<exists>node. registeredDevices (snd (registerDevice env (Some dev) s)) =
             registeredDevices s @ [node] \<and> device node = Some dev \<and>
             dn_IOR node = dev_ior dev))"
  using registerDevice_regs[of env dev s] by blast

lemma registered_wellformed_registerDevice:
  assumes wf: "registered_wellformed s"
  shows "registered_wellformed (snd (registerDevice env p s))"
proof (cases p)
  case None
  with wf show ?thesis by (simp add: registerDevice_def)
next
  case (Some dev)
  from registerDevice_appends[of env dev s]
  show ?thesis
  proof
    assume "registeredDevices (snd (registerDevice env (Some dev) s)) = registeredDevices s"
    with wf Some show ?thesis by (simp add: registered_wellformed_def)
  next
    assume "\<not> deviceIsRegistered s dev \<and>
      (\<exists>node. registeredDevices (snd (registerDevice env (Some dev) s)) =
             registeredDevices s @ [node] \<and> device node = Some dev \<and>
             dn_IOR node = dev_ior dev)"
    then obtain node where n: "\<not> deviceIsRegistered s dev"
      "registeredDevices (snd (registerDevice env (Some dev) s)) = registeredDevices s @ [node]"
      "device node = Some dev" and i: "dn_IOR node = dev_ior dev"
      by blast
    from wf n(1) have "dev_ior dev \<notin> set (map dn_IOR (registeredDevices s))"
      by (auto simp: registered_wellformed_def deviceIsRegistered_def list_all_iff list_ex_iff
          is_equivalent_def split: option.splits)
    with wf n i Some show ?thesis by (simp add: registered_wellformed_def)
  qed
qed

lemma erase_first_wellformed:
  "erase_first P xs = Some (y, ys) \<Longrightarrow> list_all Q xs \<Longrightarrow> distinct (map f xs) \<Longrightarrow>
     list_all Q ys \<and> distinct (map f ys)"
  by (drule erase_first_SomeD) auto

lemma registered_wellformed_unregisterDevice:
  assumes wf: "registered_wellformed s"
  shows "registered_wellformed (snd (unregisterDevice env p s))"
proof (cases p)
  case None
  with wf show ?thesis by (simp add: unregisterDevice_def)
next
  case (Some dev)
  show ?thesis
  proof (cases "erase_first (\<lambda>n. dn_IOR n = dev_ior dev) (registeredDevices s)")
    case None
    with wf Some show ?thesis
      by (simp add: unregisterDevice_def decrement_registeredDevices_def split: sum.splits)
  next
    case found: (Some a)
    obtain node rest where a: "a = (node, rest)" by (cases a)
    from wf have "list_all (\<lambda>n. map_option dev_ior (device n) = Some (dn_IOR n))
          (registeredDevices s)" "distinct (map dn_IOR (registeredDevices s))"
      by (simp_all add: registered_wellformed_def)
    from erase_first_wellformed[OF found[unfolded a] this]
    have r: "list_all (\<lambda>n. map_option dev_ior (device n) = Some (dn_IOR n)) rest \<and>
        distinct (map dn_IOR rest)" .
    have "registeredDevices (snd (unregisterDevice env (Some dev) s)) = registeredDevices s \<or>
        registeredDevices (snd (unregisterDevice env (Some dev) s)) = rest"
      using found a
      by (auto simp: unregisterDevice_def decrement_registeredDevices_def Let_def
          local_unregisterDevice_fields split: sum.splits)
    with wf r Some show ?thesis by (auto simp: registered_wellformed_def)
  qed
qed




section \<open>Properties of startup planning\<close>

lemma checkProcessorAndOs_host:
  "checkProcessorAndOs impl (host_props machine sysname) \<longleftrightarrow>
     processor impl = machine \<and> osName impl = sysname"
  by (auto simp: checkProcessorAndOs_def host_props_def processor_name_id_def os_name_id_def)

lemma find_first_match:
  "P y \<Longrightarrow> list_all (\<lambda>x. \<not> P x) pre \<Longrightarrow> find P (pre @ y # post) = Some y"
  by (induction pre) auto

lemma find_no_match: "list_all (\<lambda>x. \<not> P x) xs \<Longrightarrow> find P xs = None"
  by (induction xs) auto

lemma plan_placements_append:
  "plan_placements sdr info (ps1 @ ps2) acc =
     (case plan_placements sdr info ps1 acc of
        None \<Rightarrow> None
      | Some acc' \<Rightarrow> plan_placements sdr info ps2 acc')"
proof (induction ps1 arbitrary: acc)
  case Nil
  then show ?case by (cases acc) simp
next
  case (Cons p ps1)
  obtain st co where acc: "acc = (st, co)" by (cases acc)
  show ?case unfolding acc
    by (auto simp: Cons.IH split: sum.splits prod.splits)
qed

lemma plan_placements_total:
  "list_all (\<lambda>p. instantiations p \<noteq> []) ps \<Longrightarrow>
     \<exists>standalone composite. plan_placements sdr info ps acc = Some (standalone, composite)"
proof (induction ps arbitrary: acc)
  case Nil
  then show ?case by (cases acc) simp
next
  case (Cons p ps)
  obtain st co where acc: "acc = (st, co)" by (cases acc)
  from Cons.prems have i: "instantiations p \<noteq> []" and r: "list_all (\<lambda>p. instantiations p \<noteq> []) ps"
    by simp_all
  show ?case unfolding acc using i Cons.IH[OF r]
    by (auto split: sum.splits prod.splits)
qed

lemma try_placement_classifies:
  "try_placement sdr info p = Inr (d, c) \<Longrightarrow>
     fst d = p \<and>
     (c \<longleftrightarrow> isCompositePartOf p \<and>
        (\<exists>impl. selectedImplementation (snd d) = Some impl \<and> codeType impl = SHARED_LIBRARY))"
  by (auto simp: try_placement_def resolveImplementation_def Let_def
      split: sum.splits option.splits if_splits prod.splits)

lemma resolved_placements_Cons:
  "resolved_placements sdr info (p # ps) =
     (case try_placement sdr info p of
        Inl e \<Rightarrow> resolved_placements sdr info ps
      | Inr r \<Rightarrow> r # resolved_placements sdr info ps)"
  by (simp add: resolved_placements_def map_filter_simps split: sum.splits)

lemma plan_placements_resolved:
  "plan_placements sdr info ps (st, co) = Some (sa, cm) \<Longrightarrow>
     sa = st @ map fst (filter (\<lambda>r. \<not> snd r) (resolved_placements sdr info ps)) \<and>
     cm = co @ map fst (filter snd (resolved_placements sdr info ps))"
proof (induction ps arbitrary: st co)
  case Nil
  then show ?case by (simp add: resolved_placements_def map_filter_simps)
next
  case (Cons p ps)
  from Cons.prems have i: "instantiations p \<noteq> []" by (auto split: if_splits)
  show ?case
  proof (cases "try_placement sdr info p")
    case (Inl e)
    with Cons.prems i have "plan_placements sdr info ps (st, co) = Some (sa, cm)" by simp
    from Cons.IH[OF this] Inl show ?thesis by (simp add: resolved_placements_Cons)
  next
    case (Inr r)
    obtain d c where r: "r = (d, c)" by (cases r)
    show ?thesis
    proof (cases c)
      case True
      with Cons.prems i Inr r have "plan_placements sdr info ps (st, co @ [d]) = Some (sa, cm)"
        by simp
      from Cons.IH[OF this] Inr r True show ?thesis by (simp add: resolved_placements_Cons)
    next
      case False
      with Cons.prems i Inr r have "plan_placements sdr info ps (st @ [d], co) = Some (sa, cm)"
        by simp
      from Cons.IH[OF this] Inr r False show ?thesis by (simp add: resolved_placements_Cons)
    qed
  qed
qed

text \<open>
  When the resolution of a placement fails and what it yields otherwise: a dependency
  resolves iff one of its implementations matches and has dependencies that resolve; the
  implementation of a placement is the first that matches; the plan holds the placements
  whose resolution succeeds.
\<close>

lemma resolve_each_softpkg_iff:
  "resolve_each_softpkg props pkgs =
     list_all (\<lambda>pkg. resolveDependencyImplementation props pkg \<noteq> None) pkgs"
  by (induction pkgs) (auto split: option.splits)

lemma first_resolved_implementation_None_iff:
  "first_resolved_implementation props impls = None \<longleftrightarrow>
     list_all (\<lambda>di. \<not> (checkProcessorAndOs di props \<and> resolveSoftpkgDependencies props di)) impls"
  by (induction impls) auto

lemma resolveSoftpkgDependencies_iff:
  "resolveSoftpkgDependencies props m =
     list_all (\<lambda>pkg. list_ex (\<lambda>di. checkProcessorAndOs di props \<and>
                                  resolveSoftpkgDependencies props di)
                         (pkg_implementations pkg))
       (softPkgDependencies m)"
proof -
  have d: "(\<exists>y. resolveDependencyImplementation props pkg = Some y) \<longleftrightarrow>
      list_ex (\<lambda>di. checkProcessorAndOs di props \<and> resolveSoftpkgDependencies props di)
        (pkg_implementations pkg)" for pkg
  proof (cases pkg)
    case (SoftpkgInfo n impls)
    have "(\<exists>y. first_resolved_implementation props impls = Some y) \<longleftrightarrow>
        first_resolved_implementation props impls \<noteq> None" by simp
    also have "\<dots> \<longleftrightarrow> \<not> list_all (\<lambda>di. \<not> (checkProcessorAndOs di props \<and>
        resolveSoftpkgDependencies props di)) impls"
      by (simp only: first_resolved_implementation_None_iff)
    also have "\<dots> \<longleftrightarrow> list_ex (\<lambda>di. checkProcessorAndOs di props \<and>
        resolveSoftpkgDependencies props di) impls"
      by (simp add: list_all_iff list_ex_iff)
    finally show ?thesis using SoftpkgInfo by simp
  qed
  show ?thesis
    by (cases m) (simp add: resolve_each_softpkg_iff d)
qed

lemma try_placement_no_match:
  assumes "LoadProfile sdr (fileRefId p) = Inr prof"
    "list_all (\<lambda>i. \<not> checkProcessorAndOs i (prf_properties info)) (implementations prof)"
  shows "\<exists>msg. try_placement sdr info p = Inl (runtime_error msg)"
  using assms find_no_match[of "\<lambda>i. checkProcessorAndOs i (prf_properties info)" "implementations prof"]
  by (simp add: try_placement_def resolveImplementation_def)

lemma try_placement_first_match:
  assumes "LoadProfile sdr (fileRefId p) = Inr prof"
    "implementations prof = pre @ m # post" "checkProcessorAndOs m (prf_properties info)"
    "list_all (\<lambda>i. \<not> checkProcessorAndOs i (prf_properties info)) pre"
  shows "try_placement sdr info p =
     (if resolveSoftpkgDependencies (prf_properties info) m
      then Inr ((p, prof\<lparr>selectedImplementation := Some m\<rparr>),
                isCompositePartOf p \<and> codeType m = SHARED_LIBRARY)
      else Inl (runtime_error
                  ''No available softpkg dependenices match device manager implementation''))"
  using assms
    find_first_match[of "\<lambda>i. checkProcessorAndOs i (prf_properties info)" m pre post]
  by (simp add: try_placement_def resolveImplementation_def Let_def)

lemma resolved_placements_sources:
  "map (\<lambda>r. fst (fst r)) (resolved_placements sdr info cps) =
     filter (\<lambda>p. \<not> isl (try_placement sdr info p)) cps"
proof (induction cps)
  case Nil
  show ?case by (simp add: resolved_placements_def map_filter_simps)
next
  case (Cons p cps)
  show ?case
  proof (cases "try_placement sdr info p")
    case (Inl e)
    with Cons show ?thesis by (simp add: resolved_placements_Cons)
  next
    case (Inr r)
    obtain d c where r: "r = (d, c)" by (cases r)
    from try_placement_classifies[OF Inr[unfolded r]] have "fst d = p" by simp
    with Cons Inr r show ?thesis by (simp add: resolved_placements_Cons)
  qed
qed

lemma plan_placements_sources:
  assumes "plan_placements sdr info cps ([], []) = Some (standalone, composite)"
  shows "mset (map fst (standalone @ composite)) =
     mset (filter (\<lambda>p. \<not> isl (try_placement sdr info p)) cps)"
proof -
  let ?R = "resolved_placements sdr info cps"
  from plan_placements_resolved[OF assms]
  have sa: "standalone = map fst (filter (\<lambda>r. \<not> snd r) ?R)"
    and cm: "composite = map fst (filter snd ?R)" by simp_all
  have part: "filter_mset (\<lambda>r. \<not> snd r) (mset ?R) + filter_mset snd (mset ?R) = mset ?R"
    using multiset_partition[of "mset ?R" snd] by (simp add: union_commute)
  have "mset (map fst (standalone @ composite)) =
      image_mset (\<lambda>r. fst (fst r)) (filter_mset (\<lambda>r. \<not> snd r) (mset ?R)) +
      image_mset (\<lambda>r. fst (fst r)) (filter_mset snd (mset ?R))"
    unfolding sa cm by (simp add: comp_def)
  also have "\<dots> = image_mset (\<lambda>r. fst (fst r))
      (filter_mset (\<lambda>r. \<not> snd r) (mset ?R) + filter_mset snd (mset ?R))"
    by (simp only: image_mset_union)
  also have "\<dots> = mset (map (\<lambda>r. fst (fst r)) ?R)"
    unfolding part by simp
  finally show ?thesis by (simp only: resolved_placements_sources)
qed

text \<open>
  C5. \<^verbatim>\<open>setupImplementationForHost\<close> selects the first implementation of the manager's
  profile whose processor and OS name are the host's machine and sysname. When no
  implementation matches (or there is none) it throws, and the deployment part of
  \<^verbatim>\<open>postConstructor\<close> ends with that exception. Once the manager is matched, planning
  raises nothing. The resolution of a placement throws when no implementation of its
  profile matches the manager, and when the first that matches has a softpkg dependency
  none of whose implementations matches with dependencies that resolve; it succeeds with
  that first implementation when every dependency has such an implementation. For
  placements that each have an instantiation the planning loop runs to its end, and the
  plan holds exactly the placements whose resolution succeeds: a placement whose
  resolution throws is skipped, the plan being the one of the node profile without it.
\<close>

theorem manager_match_and_placement_skips:
  "(implementations devmgr_info = pre @ impl # post \<and>
    processor impl = machine \<and> osName impl = sysname \<and>
    list_all (\<lambda>i. \<not> (processor i = machine \<and> osName i = sysname)) pre \<longrightarrow>
      (\<exists>info. setupImplementationForHost sdr machine sysname devmgr_info = Inr info \<and>
              selectedImplementation info = Some impl)) \<and>
   (list_all (\<lambda>i. \<not> (processor i = machine \<and> osName i = sysname))
      (implementations devmgr_info) \<longrightarrow>
      (\<exists>msg. setupImplementationForHost sdr machine sysname devmgr_info =
               Inl (runtime_error msg) \<and>
             postConstructor_deployment sdr machine sysname devmgr_info cps =
               Inl (runtime_error msg))) \<and>
   (setupImplementationForHost sdr machine sysname devmgr_info = Inr matched \<longrightarrow>
      (\<exists>st. postConstructor_deployment sdr machine sysname devmgr_info cps = Inr st)) \<and>
   (LoadProfile sdr (fileRefId p) = Inr prof \<and>
    list_all (\<lambda>i. \<not> checkProcessorAndOs i (prf_properties info)) (implementations prof) \<longrightarrow>
      (\<exists>msg. try_placement sdr info p = Inl (runtime_error msg))) \<and>
   (LoadProfile sdr (fileRefId p) = Inr prof \<and> implementations prof = ipre @ m # ipost \<and>
    checkProcessorAndOs m (prf_properties info) \<and>
    list_all (\<lambda>i. \<not> checkProcessorAndOs i (prf_properties info)) ipre \<longrightarrow>
      (list_ex (\<lambda>pkg. list_all (\<lambda>di. \<not> (checkProcessorAndOs di (prf_properties info) \<and>
                                        resolveSoftpkgDependencies (prf_properties info) di))
                          (pkg_implementations pkg))
         (softPkgDependencies m) \<longrightarrow>
         (\<exists>msg. try_placement sdr info p = Inl (runtime_error msg))) \<and>
      (list_all (\<lambda>pkg. list_ex (\<lambda>di. checkProcessorAndOs di (prf_properties info) \<and>
                                    resolveSoftpkgDependencies (prf_properties info) di)
                           (pkg_implementations pkg))
         (softPkgDependencies m) \<longrightarrow>
         try_placement sdr info p =
           Inr ((p, prof\<lparr>selectedImplementation := Some m\<rparr>),
                isCompositePartOf p \<and> codeType m = SHARED_LIBRARY))) \<and>
   (list_all (\<lambda>p. instantiations p \<noteq> []) cps \<longrightarrow>
      (\<exists>standalone composite.
         plan_placements sdr info cps ([], []) = Some (standalone, composite) \<and>
         mset (map fst (standalone @ composite)) =
           mset (filter (\<lambda>p. \<not> isl (try_placement sdr info p)) cps))) \<and>
   (instantiations p \<noteq> [] \<and> try_placement sdr info p = Inl e \<longrightarrow>
      plan_placements sdr info (ps1 @ p # ps2) acc = plan_placements sdr info (ps1 @ ps2) acc)"
proof (intro conjI impI)
  assume a: "implementations devmgr_info = pre @ impl # post \<and>
    processor impl = machine \<and> osName impl = sysname \<and>
    list_all (\<lambda>i. \<not> (processor i = machine \<and> osName i = sysname)) pre"
  then have "find (\<lambda>i. checkProcessorAndOs i (host_props machine sysname))
      (implementations devmgr_info) = Some impl"
    using find_first_match[of "\<lambda>i. checkProcessorAndOs i (host_props machine sysname)" impl pre post]
    by (simp add: checkProcessorAndOs_host)
  with a show "\<exists>info. setupImplementationForHost sdr machine sysname devmgr_info = Inr info \<and>
              selectedImplementation info = Some impl"
    by (simp add: setupImplementationForHost_def)
next
  assume "list_all (\<lambda>i. \<not> (processor i = machine \<and> osName i = sysname))
      (implementations devmgr_info)"
  then have "find (\<lambda>i. checkProcessorAndOs i (host_props machine sysname))
      (implementations devmgr_info) = None"
    using find_no_match[of "\<lambda>i. checkProcessorAndOs i (host_props machine sysname)"
        "implementations devmgr_info"]
    by (simp add: checkProcessorAndOs_host)
  then show "\<exists>msg. setupImplementationForHost sdr machine sysname devmgr_info =
               Inl (runtime_error msg) \<and>
             postConstructor_deployment sdr machine sysname devmgr_info cps =
               Inl (runtime_error msg)"
    by (simp add: setupImplementationForHost_def postConstructor_deployment_def)
next
  assume "setupImplementationForHost sdr machine sysname devmgr_info = Inr matched"
  then show "\<exists>st. postConstructor_deployment sdr machine sysname devmgr_info cps = Inr st"
    by (simp add: postConstructor_deployment_def split: option.splits prod.splits)
next
  assume "LoadProfile sdr (fileRefId p) = Inr prof \<and>
    list_all (\<lambda>i. \<not> checkProcessorAndOs i (prf_properties info)) (implementations prof)"
  then show "\<exists>msg. try_placement sdr info p = Inl (runtime_error msg)"
    using try_placement_no_match by blast
next
  assume a: "LoadProfile sdr (fileRefId p) = Inr prof \<and> implementations prof = ipre @ m # ipost \<and>
    checkProcessorAndOs m (prf_properties info) \<and>
    list_all (\<lambda>i. \<not> checkProcessorAndOs i (prf_properties info)) ipre"
  then have t: "try_placement sdr info p =
     (if resolveSoftpkgDependencies (prf_properties info) m
      then Inr ((p, prof\<lparr>selectedImplementation := Some m\<rparr>),
                isCompositePartOf p \<and> codeType m = SHARED_LIBRARY)
      else Inl (runtime_error
                  ''No available softpkg dependenices match device manager implementation''))"
    using try_placement_first_match by blast
  note r = resolveSoftpkgDependencies_iff[of "prf_properties info" m]
  {
    assume "list_ex (\<lambda>pkg. list_all (\<lambda>di. \<not> (checkProcessorAndOs di (prf_properties info) \<and>
                                        resolveSoftpkgDependencies (prf_properties info) di))
                          (pkg_implementations pkg))
         (softPkgDependencies m)"
    then have "\<not> resolveSoftpkgDependencies (prf_properties info) m"
      by (subst r) (auto simp: list_all_iff list_ex_iff)
    with t show "\<exists>msg. try_placement sdr info p = Inl (runtime_error msg)" by simp
  }
  {
    assume "list_all (\<lambda>pkg. list_ex (\<lambda>di. checkProcessorAndOs di (prf_properties info) \<and>
                                    resolveSoftpkgDependencies (prf_properties info) di)
                           (pkg_implementations pkg))
         (softPkgDependencies m)"
    then have "resolveSoftpkgDependencies (prf_properties info) m"
      by (subst r)
    with t show "try_placement sdr info p =
           Inr ((p, prof\<lparr>selectedImplementation := Some m\<rparr>),
                isCompositePartOf p \<and> codeType m = SHARED_LIBRARY)" by simp
  }
next
  assume "list_all (\<lambda>p. instantiations p \<noteq> []) cps"
  from plan_placements_total[OF this, of sdr info "([], [])"]
  obtain standalone composite where
    pl: "plan_placements sdr info cps ([], []) = Some (standalone, composite)" by blast
  from plan_placements_sources[OF pl] pl
  show "\<exists>standalone composite.
         plan_placements sdr info cps ([], []) = Some (standalone, composite) \<and>
         mset (map fst (standalone @ composite)) =
           mset (filter (\<lambda>p. \<not> isl (try_placement sdr info p)) cps)"
    by blast
next
  assume a: "instantiations p \<noteq> [] \<and> try_placement sdr info p = Inl e"
  obtain st co where acc: "acc = (st, co)" by (cases acc)
  have "\<And>acc'. plan_placements sdr info (p # ps2) acc' = plan_placements sdr info ps2 acc'"
  proof -
    fix acc' :: "Deployment list \<times> Deployment list"
    obtain st' co' where "acc' = (st', co')" by (cases acc')
    with a show "plan_placements sdr info (p # ps2) acc' = plan_placements sdr info ps2 acc'"
      by simp
  qed
  then show "plan_placements sdr info (ps1 @ p # ps2) acc = plan_placements sdr info (ps1 @ ps2) acc"
    by (simp add: plan_placements_append[of sdr info ps1] split: option.splits)
qed

lemma example_setup:
  "setupImplementationForHost example_sdr ''x86_64'' ''Linux'' example_devmgr_info =
     Inr example_matched_info"
  by (simp add: setupImplementationForHost_def example_devmgr_info_def example_matched_info_def
      example_sdr_def checkProcessorAndOs_host)

lemma example_try_missing:
  "try_placement example_sdr example_matched_info example_missing_placement =
     Inl (runtime_error ''file not found'')"
  by (simp add: try_placement_def example_sdr_def example_missing_placement_def)

lemma example_node_try_missing:
  "try_placement example_node_sdr example_matched_info example_missing_placement =
     Inl (runtime_error ''file not found'')"
  by (simp add: try_placement_def example_node_sdr_def example_sdr_def
      example_missing_placement_def)

lemma example_matched_props:
  "checkProcessorAndOs i (prf_properties example_matched_info) \<longleftrightarrow>
     processor i = ''x86_64'' \<and> osName i = ''Linux''"
  by (simp add: example_matched_info_def checkProcessorAndOs_host)

theorem manager_match_and_placement_skips_witness:
  "(\<exists>info. setupImplementationForHost example_sdr ''x86_64'' ''Linux'' example_devmgr_info =
             Inr info \<and>
           selectedImplementation info =
             Some (ImplementationInfo ''mgr_x86'' ''x86_64'' ''Linux'' EXECUTABLE []
                     ''/mgr/DeviceManager'' [])) \<and>
   (\<exists>msg. postConstructor_deployment example_sdr ''armv7l'' ''Linux'' example_devmgr_info
             [example_gpp_placement] = Inl (runtime_error msg)) \<and>
   (\<exists>st. postConstructor_deployment example_sdr ''x86_64'' ''Linux'' example_devmgr_info
            [example_gpp_placement, example_missing_placement, example_lib_placement] = Inr st) \<and>
   (\<exists>msg. try_placement example_node_sdr example_matched_info example_arm_placement =
            Inl (runtime_error msg)) \<and>
   (\<exists>msg. try_placement example_node_sdr example_matched_info example_dep_placement =
            Inl (runtime_error msg)) \<and>
   try_placement example_node_sdr example_matched_info example_gpp_placement =
     Inr (example_gpp_deployment, False) \<and>
   try_placement example_node_sdr example_matched_info example_missing_placement =
     Inl (runtime_error ''file not found'') \<and>
   (\<exists>standalone composite.
      plan_placements example_node_sdr example_matched_info
        [example_gpp_placement, example_arm_placement, example_dep_placement,
         example_missing_placement, example_lib_placement] ([], []) =
      Some (standalone, composite) \<and>
      mset (map fst (standalone @ composite)) =
        mset [example_gpp_placement, example_lib_placement]) \<and>
   plan_placements example_node_sdr example_matched_info
     [example_gpp_placement, example_missing_placement, example_lib_placement] ([], []) =
   plan_placements example_node_sdr example_matched_info
     [example_gpp_placement, example_lib_placement] ([], [])"
proof -
  let ?x86 = "ImplementationInfo ''mgr_x86'' ''x86_64'' ''Linux'' EXECUTABLE []
                ''/mgr/DeviceManager'' []"
  let ?ppc = "ImplementationInfo ''mgr_ppc'' ''ppc'' ''Linux'' EXECUTABLE []
                ''/mgr/DeviceManager'' []"
  let ?arm = "ImplementationInfo ''radio_arm'' ''armv7l'' ''Linux'' EXECUTABLE []
                ''/devices/Radio/cpp/Radio'' []"
  let ?fast = "ImplementationInfo ''fast_arm'' ''armv7l'' ''Linux'' SHARED_LIBRARY []
                 ''/deps/libfast/libfast.so'' []"
  let ?dsp = "ImplementationInfo ''dsp_cpp'' ''x86_64'' ''Linux'' EXECUTABLE []
                ''/devices/Dsp/cpp/Dsp'' [SoftpkgInfo ''libfast'' [?fast]]"
  let ?gpp = "ImplementationInfo ''gpp_cpp'' ''x86_64'' ''Linux'' EXECUTABLE []
                ''/devices/GPP/cpp/GPP'' []"
  let ?arm_prof = "\<lparr>instantiationIdentifier = [], isConfigurable = True,
      nonNilConstructProperties = [], nonNilConfigureProperties = [],
      implementations = [?arm], selectedImplementation = None, componentType = ''device'',
      prf_properties = []\<rparr>"
  let ?dsp_prof = "\<lparr>instantiationIdentifier = [], isConfigurable = True,
      nonNilConstructProperties = [], nonNilConfigureProperties = [],
      implementations = [?dsp], selectedImplementation = None, componentType = ''device'',
      prf_properties = []\<rparr>"
  let ?gpp_prof = "\<lparr>instantiationIdentifier = [], isConfigurable = True,
      nonNilConstructProperties = [], nonNilConfigureProperties = [],
      implementations = [?gpp], selectedImplementation = None,
      componentType = ''executabledevice'', prf_properties = []\<rparr>"
  let ?cps = "[example_gpp_placement, example_arm_placement, example_dep_placement,
         example_missing_placement, example_lib_placement]"
  have h1: "implementations example_devmgr_info = [?ppc] @ ?x86 # [] \<and>
      processor ?x86 = ''x86_64'' \<and> osName ?x86 = ''Linux'' \<and>
      list_all (\<lambda>i. \<not> (processor i = ''x86_64'' \<and> osName i = ''Linux'')) [?ppc]"
    by (simp add: example_devmgr_info_def)
  have h2: "list_all (\<lambda>i. \<not> (processor i = ''armv7l'' \<and> osName i = ''Linux''))
      (implementations example_devmgr_info)"
    by (simp add: example_devmgr_info_def)
  have h4: "LoadProfile example_node_sdr (fileRefId example_arm_placement) = Inr ?arm_prof \<and>
      list_all (\<lambda>i. \<not> checkProcessorAndOs i (prf_properties example_matched_info))
        (implementations ?arm_prof)"
    by (simp add: example_node_sdr_def example_arm_placement_def example_matched_props)
  have h5: "LoadProfile example_node_sdr (fileRefId example_dep_placement) = Inr ?dsp_prof \<and>
      implementations ?dsp_prof = [] @ ?dsp # [] \<and>
      checkProcessorAndOs ?dsp (prf_properties example_matched_info) \<and>
      list_all (\<lambda>i. \<not> checkProcessorAndOs i (prf_properties example_matched_info)) []"
    by (simp add: example_node_sdr_def example_dep_placement_def example_matched_props)
  have h5': "list_ex (\<lambda>pkg. list_all (\<lambda>di. \<not> (checkProcessorAndOs di (prf_properties example_matched_info) \<and>
                   resolveSoftpkgDependencies (prf_properties example_matched_info) di))
                 (pkg_implementations pkg))
      (softPkgDependencies ?dsp)"
    by (simp add: example_matched_props)
  have h6: "LoadProfile example_node_sdr (fileRefId example_gpp_placement) = Inr ?gpp_prof \<and>
      implementations ?gpp_prof = [] @ ?gpp # [] \<and>
      checkProcessorAndOs ?gpp (prf_properties example_matched_info) \<and>
      list_all (\<lambda>i. \<not> checkProcessorAndOs i (prf_properties example_matched_info)) []"
    by (simp add: example_node_sdr_def example_sdr_def example_gpp_placement_def
        example_matched_props)
  have h6': "list_all (\<lambda>pkg. list_ex (\<lambda>di. checkProcessorAndOs di (prf_properties example_matched_info) \<and>
                   resolveSoftpkgDependencies (prf_properties example_matched_info) di)
                 (pkg_implementations pkg))
      (softPkgDependencies ?gpp)"
    by simp
  have h7: "list_all (\<lambda>p. instantiations p \<noteq> []) ?cps"
    by (simp add: example_gpp_placement_def example_missing_placement_def
        example_lib_placement_def example_arm_placement_def example_dep_placement_def)
  have h8: "instantiations example_missing_placement \<noteq> [] \<and>
      try_placement example_node_sdr example_matched_info example_missing_placement =
        Inl (runtime_error ''file not found'')"
    by (simp add: example_node_try_missing) (simp add: example_missing_placement_def)
  from manager_match_and_placement_skips[of example_devmgr_info "[?ppc]" ?x86 "[]"
      "''x86_64''" "''Linux''" example_sdr] h1
  have c1: "\<exists>info. setupImplementationForHost example_sdr ''x86_64'' ''Linux'' example_devmgr_info =
             Inr info \<and> selectedImplementation info = Some ?x86"
    by blast
  from manager_match_and_placement_skips[of example_devmgr_info _ _ _
      "''armv7l''" "''Linux''" example_sdr "[example_gpp_placement]"] h2
  have c2: "\<exists>msg. postConstructor_deployment example_sdr ''armv7l'' ''Linux'' example_devmgr_info
             [example_gpp_placement] = Inl (runtime_error msg)"
    by blast
  from manager_match_and_placement_skips[of example_devmgr_info _ _ _
      "''x86_64''" "''Linux''" example_sdr
      "[example_gpp_placement, example_missing_placement, example_lib_placement]"
      example_matched_info] example_setup
  have c3: "\<exists>st. postConstructor_deployment example_sdr ''x86_64'' ''Linux'' example_devmgr_info
            [example_gpp_placement, example_missing_placement, example_lib_placement] = Inr st"
    by blast
  have c4: "\<exists>msg. try_placement example_node_sdr example_matched_info example_arm_placement =
            Inl (runtime_error msg)"
    using manager_match_and_placement_skips[of _ _ _ _ _ _ example_node_sdr _ _
      example_arm_placement ?arm_prof example_matched_info] h4
    by blast
  have c5: "\<exists>msg. try_placement example_node_sdr example_matched_info example_dep_placement =
            Inl (runtime_error msg)"
    using manager_match_and_placement_skips[of _ _ _ _ _ _ example_node_sdr _ _
      example_dep_placement ?dsp_prof example_matched_info "[]" ?dsp "[]"] h5 h5'
    by blast
  have c6: "try_placement example_node_sdr example_matched_info example_gpp_placement =
      Inr ((example_gpp_placement, ?gpp_prof\<lparr>selectedImplementation := Some ?gpp\<rparr>),
           isCompositePartOf example_gpp_placement \<and> codeType ?gpp = SHARED_LIBRARY)"
    using manager_match_and_placement_skips[of _ _ _ _ _ _ example_node_sdr _ _
      example_gpp_placement ?gpp_prof example_matched_info "[]" ?gpp "[]"] h6 h6'
    by blast
  have c6': "try_placement example_node_sdr example_matched_info example_gpp_placement =
      Inr (example_gpp_deployment, False)"
    unfolding c6
    by (simp add: example_gpp_deployment_def isCompositePartOf_def example_gpp_placement_def)
  have tl: "try_placement example_node_sdr example_matched_info example_lib_placement =
      Inr (example_lib_deployment, True)"
    by (simp add: try_placement_def resolveImplementation_def example_node_sdr_def
        example_sdr_def example_lib_placement_def example_lib_deployment_def
        example_matched_props isCompositePartOf_def Let_def)
  have keep: "filter (\<lambda>p. \<not> isl (try_placement example_node_sdr example_matched_info p)) ?cps =
      [example_gpp_placement, example_lib_placement]"
    using c4 c5 by (auto simp: c6' tl example_node_try_missing)
  from manager_match_and_placement_skips[of _ _ _ _ _ _ example_node_sdr ?cps _ _ _
      example_matched_info] h7
  have c7: "\<exists>standalone composite.
      plan_placements example_node_sdr example_matched_info ?cps ([], []) =
      Some (standalone, composite) \<and>
      mset (map fst (standalone @ composite)) =
        mset [example_gpp_placement, example_lib_placement]"
    unfolding keep by blast
  from manager_match_and_placement_skips[of _ _ _ _ _ _ example_node_sdr _ _
      example_missing_placement _ example_matched_info _ _ _ "runtime_error ''file not found''"
      "[example_gpp_placement]" "[example_lib_placement]" "([], [])"] h8
  have c8: "plan_placements example_node_sdr example_matched_info
     [example_gpp_placement, example_missing_placement, example_lib_placement] ([], []) =
   plan_placements example_node_sdr example_matched_info
     [example_gpp_placement, example_lib_placement] ([], [])"
    by simp
  from c1 c2 c3 c4 c5 c6' c7 c8 example_node_try_missing show ?thesis by blast
qed

lemma getDeviceOrService_type:
  "getDeviceOrService prof = Some t \<Longrightarrow> t = ''device'' \<or> t = ''service''"
  by (auto simp: getDeviceOrService_def Let_def split: if_splits)

lemma launch_instantiation_step:
  "status (launch_instantiation sdr d impl ior st i) = status st \<and>
   (launched (launch_instantiation sdr d impl ior st i) = launched st \<or>
    (\<exists>t c. launched (launch_instantiation sdr d impl ior st i) =
         launched st @ [Launch (inst_id i) t c ior] \<and> (t = ''device'' \<or> t = ''service'')))"
  by (auto simp: launch_instantiation_def Let_def dest: getDeviceOrService_type
      split: option.splits)

lemma launch_instantiations:
  "\<exists>Z. launched (foldl (launch_instantiation sdr d impl ior) st is) = launched st @ Z \<and>
       subseq (map launch_id Z) (map inst_id is) \<and> list_all standalone_type Z \<and>
       status (foldl (launch_instantiation sdr d impl ior) st is) = status st"
proof (induction "is" arbitrary: st)
  case Nil
  show ?case by simp
next
  case (Cons i "is")
  let ?st1 = "launch_instantiation sdr d impl ior st i"
  from Cons.IH[of ?st1] obtain Z where
    Z: "launched (foldl (launch_instantiation sdr d impl ior) ?st1 is) = launched ?st1 @ Z"
       "subseq (map launch_id Z) (map inst_id is)" "list_all standalone_type Z"
       "status (foldl (launch_instantiation sdr d impl ior) ?st1 is) = status ?st1"
    by blast
  from launch_instantiation_step[of sdr d impl ior st i]
  have s: "status ?st1 = status st" by simp
  from launch_instantiation_step[of sdr d impl ior st i]
  consider (same) "launched ?st1 = launched st"
    | (one) t c where "launched ?st1 = launched st @ [Launch (inst_id i) t c ior]"
        "t = ''device'' \<or> t = ''service''"
    by blast
  then show ?case
  proof cases
    case same
    with Z s have "launched (foldl (launch_instantiation sdr d impl ior) st (i # is)) =
        launched st @ Z \<and> subseq (map launch_id Z) (map inst_id (i # is)) \<and>
        list_all standalone_type Z \<and>
        status (foldl (launch_instantiation sdr d impl ior) st (i # is)) = status st"
      by (simp add: list_emb_Cons)
    then show ?thesis by blast
  next
    case one
    let ?Z = "Launch (inst_id i) t c ior # Z"
    from one Z s have "launched (foldl (launch_instantiation sdr d impl ior) st (i # is)) =
        launched st @ ?Z \<and> subseq (map launch_id ?Z) (map inst_id (i # is)) \<and>
        list_all standalone_type ?Z \<and>
        status (foldl (launch_instantiation sdr d impl ior) st (i # is)) = status st"
      by (auto simp: standalone_type_def)
    then show ?thesis by blast
  qed
qed

lemma launch_standalone_step:
  "\<exists>Y. launched (launch_standalone sdr cps st d) = launched st @ Y \<and>
       subseq (map launch_id Y) (map inst_id (instantiations (fst d))) \<and>
       list_all standalone_type Y"
proof (cases "status st = Running \<and> instantiations (fst d) \<noteq> [] \<and>
    (\<exists>impl. selectedImplementation (snd d) = Some impl \<and> addDeviceImplProperties sdr impl) \<and>
    (\<exists>ior. getCompositeDeviceIOR sdr cps (fst d) = Some ior)")
  case True
  then obtain impl ior where
    i: "selectedImplementation (snd d) = Some impl" "addDeviceImplProperties sdr impl"
       "getCompositeDeviceIOR sdr cps (fst d) = Some ior"
    by blast
  with True have "launch_standalone sdr cps st d =
      foldl (launch_instantiation sdr d impl ior) st (instantiations (fst d))"
    by (simp add: launch_standalone_def)
  with launch_instantiations[of sdr d impl ior st "instantiations (fst d)"]
  show ?thesis by auto
next
  case False
  then have "launched (launch_standalone sdr cps st d) = launched st"
    by (auto simp: launch_standalone_def split: option.splits)
  then have "launched (launch_standalone sdr cps st d) = launched st @ [] \<and>
       subseq (map launch_id []) (map inst_id (instantiations (fst d))) \<and>
       list_all standalone_type []"
    by simp
  then show ?thesis by blast
qed

lemma launch_standalone_all:
  "\<exists>X. launched (foldl (launch_standalone sdr cps) st ds) = launched st @ X \<and>
       subseq (map launch_id X) (instantiation_ids ds) \<and> list_all standalone_type X"
proof (induction ds arbitrary: st)
  case Nil
  show ?case by (simp add: instantiation_ids_def)
next
  case (Cons d ds)
  let ?st1 = "launch_standalone sdr cps st d"
  from launch_standalone_step[of sdr cps st d] obtain Y where
    Y: "launched ?st1 = launched st @ Y"
       "subseq (map launch_id Y) (map inst_id (instantiations (fst d)))"
       "list_all standalone_type Y"
    by blast
  from Cons.IH[of ?st1] obtain X where
    X: "launched (foldl (launch_standalone sdr cps) ?st1 ds) = launched ?st1 @ X"
       "subseq (map launch_id X) (instantiation_ids ds)" "list_all standalone_type X"
    by blast
  from Y(2) X(2) have "subseq (map launch_id (Y @ X)) (instantiation_ids (d # ds))"
    by (simp add: instantiation_ids_def list_emb_append_mono)
  with X Y have "launched (foldl (launch_standalone sdr cps) st (d # ds)) = launched st @ (Y @ X) \<and>
       subseq (map launch_id (Y @ X)) (instantiation_ids (d # ds)) \<and>
       list_all standalone_type (Y @ X)"
    by simp
  then show ?case by blast
qed

lemma composite_launch_of_mono:
  "set ids \<subseteq> set ids' \<Longrightarrow> list_all (composite_launch_of ids) Z \<Longrightarrow>
     list_all (composite_launch_of ids') Z"
  by (auto simp: list_all_iff composite_launch_of_def)

lemma launch_composite_instantiations:
  "\<exists>Z. launched (foldl (launch_composite_instantiation sdr cd impl ior) st is) = launched st @ Z \<and>
       list_all (composite_launch_of (map inst_id is)) Z \<and>
       status (foldl (launch_composite_instantiation sdr cd impl ior) st is) = status st"
proof (induction "is" arbitrary: st)
  case Nil
  show ?case by simp
next
  case (Cons i "is")
  let ?st1 = "launch_composite_instantiation sdr cd impl ior st i"
  from Cons.IH[of ?st1] obtain Z where
    Z: "launched (foldl (launch_composite_instantiation sdr cd impl ior) ?st1 is) =
          launched ?st1 @ Z"
       "list_all (composite_launch_of (map inst_id is)) Z"
       "status (foldl (launch_composite_instantiation sdr cd impl ior) ?st1 is) = status ?st1"
    by blast
  have s: "status ?st1 = status st"
    by (simp add: launch_composite_instantiation_def Let_def split: option.splits)
  from Z(2) have Z': "list_all (composite_launch_of (map inst_id (i # is))) Z"
    by (rule composite_launch_of_mono[rotated]) auto
  have "launched ?st1 = launched st \<or>
      (\<exists>c. launched ?st1 = launched st @ [Launch (inst_id i) ''SharedLibrary'' c ior])"
    by (simp add: launch_composite_instantiation_def Let_def split: option.splits)
  then show ?case
  proof
    assume "launched ?st1 = launched st"
    with Z Z' s have "launched (foldl (launch_composite_instantiation sdr cd impl ior) st (i # is)) =
        launched st @ Z \<and> list_all (composite_launch_of (map inst_id (i # is))) Z \<and>
        status (foldl (launch_composite_instantiation sdr cd impl ior) st (i # is)) = status st"
      by simp
    then show ?thesis by blast
  next
    assume "\<exists>c. launched ?st1 = launched st @ [Launch (inst_id i) ''SharedLibrary'' c ior]"
    then obtain c where c: "launched ?st1 = launched st @ [Launch (inst_id i) ''SharedLibrary'' c ior]"
      by blast
    let ?Z = "Launch (inst_id i) ''SharedLibrary'' c ior # Z"
    from c Z Z' s have "launched (foldl (launch_composite_instantiation sdr cd impl ior) st (i # is)) =
        launched st @ ?Z \<and> list_all (composite_launch_of (map inst_id (i # is))) ?Z \<and>
        status (foldl (launch_composite_instantiation sdr cd impl ior) st (i # is)) = status st"
      by (simp add: composite_launch_of_def)
    then show ?thesis by blast
  qed
qed

lemma composite_scan_launches:
  "\<exists>Z. launched (composite_scan sdr cps cd parent_id sds parentImpl found st) = launched st @ Z \<and>
       list_all (composite_launch_of (map inst_id (instantiations (fst cd)))) Z"
proof (induction sds arbitrary: parentImpl found st)
  case Nil
  show ?case by simp
next
  case (Cons sd sds)
  show ?case
  proof (cases "status st \<noteq> Running")
    case True
    then show ?thesis by simp
  next
    case False
    define is_parent where "is_parent = list_ex (\<lambda>i. inst_id i = parent_id) (instantiations (fst sd))"
    define parentImpl' where
      "parentImpl' = (if is_parent then selectedImplementation (snd sd) else parentImpl)"
    define found' where
      "found' = (if is_parent \<and> parent_deployed st parent_id then True else found)"
    define st' where "st' =
               (if \<not> found' then st
                else
                  (case selectedImplementation (snd cd) of
                     None \<Rightarrow> st
                   | Some matchingImpl \<Rightarrow>
                       if parentImpl' = None then st
                       else if \<not> addDeviceImplProperties sdr matchingImpl then st
                       else
                         (case getCompositeDeviceIOR sdr cps (fst cd) of
                            None \<Rightarrow> st\<lparr>status := Hung\<rparr>
                          | Some compositeDeviceIOR \<Rightarrow>
                              foldl (launch_composite_instantiation sdr cd matchingImpl
                                       compositeDeviceIOR) st (instantiations (fst cd)))))"
    have e: "composite_scan sdr cps cd parent_id (sd # sds) parentImpl found st =
        composite_scan sdr cps cd parent_id sds parentImpl' found' st'"
      unfolding is_parent_def parentImpl'_def found'_def st'_def
      using False by (simp add: Let_def)
    have "\<exists>Y. launched st' = launched st @ Y \<and>
        list_all (composite_launch_of (map inst_id (instantiations (fst cd)))) Y"
    proof (cases "found' \<and> (\<exists>impl. selectedImplementation (snd cd) = Some impl \<and>
        addDeviceImplProperties sdr impl) \<and> parentImpl' \<noteq> None \<and>
        (\<exists>ior. getCompositeDeviceIOR sdr cps (fst cd) = Some ior)")
      case True
      then obtain impl ior where
        i: "selectedImplementation (snd cd) = Some impl" "addDeviceImplProperties sdr impl"
           "getCompositeDeviceIOR sdr cps (fst cd) = Some ior"
        by blast
      with True have "st' = foldl (launch_composite_instantiation sdr cd impl ior) st
          (instantiations (fst cd))"
        by (auto simp: st'_def)
      with launch_composite_instantiations[of sdr cd impl ior st "instantiations (fst cd)"]
      show ?thesis by auto
    next
      case False
      then have "launched st' = launched st"
        by (auto simp: st'_def split: option.splits)
      then have "launched st' = launched st @ [] \<and>
          list_all (composite_launch_of (map inst_id (instantiations (fst cd)))) []"
        by simp
      then show ?thesis by blast
    qed
    then obtain Y where Y: "launched st' = launched st @ Y"
      "list_all (composite_launch_of (map inst_id (instantiations (fst cd)))) Y"
      by blast
    from Cons.IH[of parentImpl' found' st'] obtain Z where
      Z: "launched (composite_scan sdr cps cd parent_id sds parentImpl' found' st') =
            launched st' @ Z"
         "list_all (composite_launch_of (map inst_id (instantiations (fst cd)))) Z"
      by blast
    from Y Z have "launched (composite_scan sdr cps cd parent_id (sd # sds) parentImpl found st) =
        launched st @ (Y @ Z) \<and>
        list_all (composite_launch_of (map inst_id (instantiations (fst cd)))) (Y @ Z)"
      unfolding e by simp
    then show ?thesis by blast
  qed
qed

lemma launch_composite_step:
  "\<exists>Z. launched (launch_composite sdr cps standalone st cd) = launched st @ Z \<and>
       list_all (composite_launch_of (map inst_id (instantiations (fst cd)))) Z"
proof (cases "status st = Running \<and> compositePartOfDeviceID (fst cd) \<noteq> None")
  case True
  then obtain parent_id where "compositePartOfDeviceID (fst cd) = Some parent_id" by auto
  with True have "launch_composite sdr cps standalone st cd =
      composite_scan sdr cps cd parent_id standalone None False st"
    by (simp add: launch_composite_def)
  with composite_scan_launches[of sdr cps cd parent_id standalone None False st]
  show ?thesis by simp
next
  case False
  then have "launched (launch_composite sdr cps standalone st cd) = launched st"
    by (auto simp: launch_composite_def split: option.splits)
  then have "launched (launch_composite sdr cps standalone st cd) = launched st @ [] \<and>
       list_all (composite_launch_of (map inst_id (instantiations (fst cd)))) []"
    by simp
  then show ?thesis by blast
qed

lemma launch_composite_all:
  "\<exists>Z. launched (foldl (launch_composite sdr cps standalone) st cds) = launched st @ Z \<and>
       list_all (composite_launch_of (instantiation_ids cds)) Z"
proof (induction cds arbitrary: st)
  case Nil
  show ?case by (simp add: instantiation_ids_def)
next
  case (Cons cd cds)
  let ?st1 = "launch_composite sdr cps standalone st cd"
  from launch_composite_step[of sdr cps standalone st cd] obtain Y where
    Y: "launched ?st1 = launched st @ Y"
       "list_all (composite_launch_of (map inst_id (instantiations (fst cd)))) Y"
    by blast
  from Cons.IH[of ?st1] obtain Z where
    Z: "launched (foldl (launch_composite sdr cps standalone) ?st1 cds) = launched ?st1 @ Z"
       "list_all (composite_launch_of (instantiation_ids cds)) Z"
    by blast
  from Y(2) have Y': "list_all (composite_launch_of (instantiation_ids (cd # cds))) Y"
    by (rule composite_launch_of_mono[rotated]) (auto simp: instantiation_ids_def)
  from Z(2) have Z': "list_all (composite_launch_of (instantiation_ids (cd # cds))) Z"
    by (rule composite_launch_of_mono[rotated]) (auto simp: instantiation_ids_def)
  from Y Z Y' Z' have "launched (foldl (launch_composite sdr cps standalone) st (cd # cds)) =
      launched st @ (Y @ Z) \<and>
      list_all (composite_launch_of (instantiation_ids (cd # cds))) (Y @ Z)"
    by simp
  then show ?case by blast
qed

lemma launch_instantiations_all:
  "getCodeFilePath sdr impl True = Some c \<Longrightarrow> getDeviceOrService (snd d) = Some t \<Longrightarrow>
     launched (foldl (launch_instantiation sdr d impl ior) st is) =
       launched st @ map (\<lambda>i. Launch (inst_id i) t c ior) is \<and>
     status (foldl (launch_instantiation sdr d impl ior) st is) = status st"
  by (induction "is" arbitrary: st) (simp_all add: launch_instantiation_def Let_def)

lemma launch_standalone_launchable:
  assumes r: "status st = Running" and l: "launchable sdr cps d"
  shows "status (launch_standalone sdr cps st d) = Running \<and>
         map launch_id (launched (launch_standalone sdr cps st d)) =
           map launch_id (launched st) @ map inst_id (instantiations (fst d))"
proof -
  from l obtain impl c ior t where
    i: "instantiations (fst d) \<noteq> []" "selectedImplementation (snd d) = Some impl"
       "addDeviceImplProperties sdr impl" "getCodeFilePath sdr impl True = Some c"
       "getCompositeDeviceIOR sdr cps (fst d) = Some ior" "getDeviceOrService (snd d) = Some t"
    by (auto simp: launchable_def split: option.splits)
  with r have e: "launch_standalone sdr cps st d =
      foldl (launch_instantiation sdr d impl ior) st (instantiations (fst d))"
    by (simp add: launch_standalone_def)
  from launch_instantiations_all[OF i(4) i(6), of ior st "instantiations (fst d)"] r
  show ?thesis unfolding e by (simp add: comp_def)
qed

lemma launch_standalone_all_launchable:
  "status st = Running \<Longrightarrow> list_all (launchable sdr cps) ds \<Longrightarrow>
     status (foldl (launch_standalone sdr cps) st ds) = Running \<and>
     map launch_id (launched (foldl (launch_standalone sdr cps) st ds)) =
       map launch_id (launched st) @ instantiation_ids ds"
proof (induction ds arbitrary: st)
  case Nil
  then show ?case by (simp add: instantiation_ids_def)
next
  case (Cons d ds)
  from Cons.prems have l: "launchable sdr cps d" and r: "list_all (launchable sdr cps) ds"
    by simp_all
  from launch_standalone_launchable[OF Cons.prems(1) l]
  have s: "status (launch_standalone sdr cps st d) = Running"
    and m: "map launch_id (launched (launch_standalone sdr cps st d)) =
           map launch_id (launched st) @ map inst_id (instantiations (fst d))"
    by simp_all
  from Cons.IH[OF s r] m show ?case by (simp add: instantiation_ids_def)
qed

lemma example_try_gpp:
  "try_placement example_sdr example_matched_info example_gpp_placement =
     Inr (example_gpp_deployment, False)"
  by (simp add: try_placement_def resolveImplementation_def example_sdr_def
      example_matched_info_def example_devmgr_info_def example_gpp_placement_def
      example_gpp_deployment_def checkProcessorAndOs_host isCompositePartOf_def)

lemma example_try_lib:
  "try_placement example_sdr example_matched_info example_lib_placement =
     Inr (example_lib_deployment, True)"
  by (simp add: try_placement_def resolveImplementation_def example_sdr_def
      example_matched_info_def example_devmgr_info_def example_lib_placement_def
      example_lib_deployment_def checkProcessorAndOs_host isCompositePartOf_def)

lemma example_plan:
  "plan_placements example_sdr example_matched_info example_placements ([], []) =
     Some ([example_gpp_deployment], [example_lib_deployment])"
  by (simp add: example_placements_def example_try_gpp example_try_lib example_try_missing)
     (simp add: example_gpp_placement_def example_lib_placement_def
        example_missing_placement_def)

text \<open>
  C9. A placement that resolves is classified as composite exactly when it is a composite
  part of a device and the code type of its selected implementation is SharedLibrary; the
  plan's composite list holds the resolved placements so classified and its standalone
  list all the other resolved ones, both in input order. The launches of the standalone
  loop come first in the launch log, in the order of the standalone list and its
  instantiations, with component type "device" or "service"; every later launch is one of
  a composite placement, with component type "SharedLibrary". When nothing fails at
  launch time, every instantiation of every standalone placement is launched.
\<close>

theorem classification_and_launch_order:
  "(try_placement sdr info p = Inr (d, c) \<longrightarrow>
      fst d = p \<and>
      (c \<longleftrightarrow> isCompositePartOf p \<and>
         (\<exists>impl. selectedImplementation (snd d) = Some impl \<and>
                 codeType impl = SHARED_LIBRARY))) \<and>
   (plan_placements sdr info cps ([], []) = Some (standalone, composite) \<longrightarrow>
      composite = map fst (filter snd (resolved_placements sdr info cps)) \<and>
      standalone = map fst (filter (\<lambda>r. \<not> snd r) (resolved_placements sdr info cps))) \<and>
   (\<exists>late. launched (launch_all sdr cps sa co) =
             launched (foldl (launch_standalone sdr cps) initial_Startup sa) @ late \<and>
           list_all (composite_launch_of (instantiation_ids co)) late) \<and>
   subseq (map launch_id (launched (foldl (launch_standalone sdr cps) initial_Startup sa)))
     (instantiation_ids sa) \<and>
   list_all standalone_type (launched (foldl (launch_standalone sdr cps) initial_Startup sa)) \<and>
   (list_all (launchable sdr cps) sa \<longrightarrow>
      map launch_id (launched (foldl (launch_standalone sdr cps) initial_Startup sa)) =
        instantiation_ids sa)"
proof (intro conjI impI)
  assume "try_placement sdr info p = Inr (d, c)"
  from try_placement_classifies[OF this]
  show "fst d = p" and "c \<longleftrightarrow> isCompositePartOf p \<and>
         (\<exists>impl. selectedImplementation (snd d) = Some impl \<and> codeType impl = SHARED_LIBRARY)"
    by simp_all
next
  assume a: "plan_placements sdr info cps ([], []) = Some (standalone, composite)"
  from plan_placements_resolved[OF a]
  show "composite = map fst (filter snd (resolved_placements sdr info cps))"
    and "standalone = map fst (filter (\<lambda>r. \<not> snd r) (resolved_placements sdr info cps))"
    by simp_all
next
  from launch_composite_all[of sdr cps sa "foldl (launch_standalone sdr cps) initial_Startup sa" co]
  show "\<exists>late. launched (launch_all sdr cps sa co) =
             launched (foldl (launch_standalone sdr cps) initial_Startup sa) @ late \<and>
           list_all (composite_launch_of (instantiation_ids co)) late"
    by (simp add: launch_all_def)
next
  from launch_standalone_all[of sdr cps initial_Startup sa]
  show "subseq (map launch_id (launched (foldl (launch_standalone sdr cps) initial_Startup sa)))
     (instantiation_ids sa)"
    and "list_all standalone_type (launched (foldl (launch_standalone sdr cps) initial_Startup sa))"
    by (auto simp: initial_Startup_def)
next
  assume "list_all (launchable sdr cps) sa"
  from launch_standalone_all_launchable[OF _ this, of initial_Startup]
  show "map launch_id (launched (foldl (launch_standalone sdr cps) initial_Startup sa)) =
        instantiation_ids sa"
    by (simp add: initial_Startup_def)
qed

lemma example_launchable:
  "list_all (launchable example_sdr example_placements) [example_gpp_deployment]"
  by (simp add: launchable_def example_gpp_deployment_def example_gpp_placement_def
      addDeviceImplProperties_def getCodeFilePath_def getCompositeDeviceIOR_def
      getDeviceOrService_def example_sdr_def Let_def)

lemma example_standalone_launches:
  "launched (foldl (launch_standalone example_sdr example_placements) initial_Startup
      [example_gpp_deployment]) =
     [Launch ''gpp_1'' ''device'' ''/sdr/dev/devices/GPP/cpp/GPP'' []]"
  by (simp add: launch_standalone_def launch_instantiation_def initial_Startup_def
      example_gpp_deployment_def example_gpp_placement_def
      addDeviceImplProperties_def getCodeFilePath_def getCompositeDeviceIOR_def
      getDeviceOrService_def example_sdr_def Let_def)

lemma example_launches:
  "launched (launch_all example_sdr example_placements [example_gpp_deployment]
      [example_lib_deployment]) =
     [Launch ''gpp_1'' ''device'' ''/sdr/dev/devices/GPP/cpp/GPP'' [],
      Launch ''child_1'' ''SharedLibrary'' ''/devices/Child/cpp/libChild.so'' ''IOR:gpp'']"
  by (simp add: launch_all_def launch_standalone_def launch_instantiation_def
      launch_composite_def launch_composite_instantiation_def parent_deployed_def
      initial_Startup_def
      example_gpp_deployment_def example_gpp_placement_def
      example_lib_deployment_def example_lib_placement_def example_placements_def
      example_missing_placement_def
      addDeviceImplProperties_def getCodeFilePath_def getCompositeDeviceIOR_def
      getDeviceOrService_def example_sdr_def Let_def)

theorem classification_and_launch_order_witness:
  "try_placement example_sdr example_matched_info example_lib_placement =
     Inr (example_lib_deployment, True) \<and>
   isCompositePartOf example_lib_placement \<and>
   plan_placements example_sdr example_matched_info example_placements ([], []) =
     Some ([example_gpp_deployment], [example_lib_deployment]) \<and>
   map fst (filter snd (resolved_placements example_sdr example_matched_info example_placements)) =
     [example_lib_deployment] \<and>
   map fst (filter (\<lambda>r. \<not> snd r)
        (resolved_placements example_sdr example_matched_info example_placements)) =
     [example_gpp_deployment] \<and>
   list_all (launchable example_sdr example_placements) [example_gpp_deployment] \<and>
   map launch_id
     (launched (foldl (launch_standalone example_sdr example_placements) initial_Startup
        [example_gpp_deployment])) = [''gpp_1''] \<and>
   launched (launch_all example_sdr example_placements [example_gpp_deployment]
      [example_lib_deployment]) =
     [Launch ''gpp_1'' ''device'' ''/sdr/dev/devices/GPP/cpp/GPP'' [],
      Launch ''child_1'' ''SharedLibrary'' ''/devices/Child/cpp/libChild.so'' ''IOR:gpp'']"
proof -
  note t = classification_and_launch_order[of example_sdr example_matched_info
      example_lib_placement example_lib_deployment True example_placements
      "[example_gpp_deployment]" "[example_lib_deployment]"
      "[example_gpp_deployment]" "[example_lib_deployment]"]
  from t example_try_lib have c1: "isCompositePartOf example_lib_placement" by simp
  from t example_plan
  have c2: "map fst (filter snd
        (resolved_placements example_sdr example_matched_info example_placements)) =
     [example_lib_deployment]"
    "map fst (filter (\<lambda>r. \<not> snd r)
        (resolved_placements example_sdr example_matched_info example_placements)) =
     [example_gpp_deployment]"
    by simp_all
  from t example_launchable
  have c3: "map launch_id
     (launched (foldl (launch_standalone example_sdr example_placements) initial_Startup
        [example_gpp_deployment])) = instantiation_ids [example_gpp_deployment]"
    by blast
  have ids: "instantiation_ids [example_gpp_deployment] = [''gpp_1'']"
    by (simp add: instantiation_ids_def example_gpp_deployment_def example_gpp_placement_def)
  from c1 c2 c3 ids example_try_lib example_plan example_launchable example_launches
  show ?thesis by simp
qed

end
